theory Spec2Isabelle
  imports Complex_Main
begin

section \<open>NumPy arrays and scalars\<close>

text \<open>
  The solvers of \<^verbatim>\<open>ProblemManager/GeneralProblem.py\<close> compute on one-dimensional
  NumPy arrays of floats. The embedding idealises a float as a real number (rounding is
  not modelled, except for the underflow of the short-step divisor described below) and
  an array as the list of its entries. All arrays of one problem are
  taken to have the problem's dimension; an operation on two arrays pairs their entries.
\<close>

type_synonym ndarray = "real list"

definition zeros :: "nat \<Rightarrow> ndarray" where
  "zeros n = replicate n 0"

definition np_add :: "ndarray \<Rightarrow> ndarray \<Rightarrow> ndarray" where
  "np_add a b = map2 (+) a b"

definition np_sub :: "ndarray \<Rightarrow> ndarray \<Rightarrow> ndarray" where
  "np_sub a b = map2 (-) a b"

definition np_scale :: "real \<Rightarrow> ndarray \<Rightarrow> ndarray" where
  "np_scale c a = map ((*) c) a"

definition np_neg :: "ndarray \<Rightarrow> ndarray" where
  "np_neg a = map uminus a"

text \<open>\<^verbatim>\<open>a.transpose() @ b\<close> on one-dimensional arrays is the inner product.\<close>

definition np_dot :: "ndarray \<Rightarrow> ndarray \<Rightarrow> real" where
  "np_dot a b = sum_list (map2 (*) a b)"

definition norm_ord1 :: "ndarray \<Rightarrow> real" where
  "norm_ord1 a = sum_list (map abs a)"

definition norm_ord2 :: "ndarray \<Rightarrow> real" where
  "norm_ord2 a = sqrt (sum_list (map (\<lambda>v. v ^ 2) a))"

text \<open>
  Dividing NumPy floats by zero raises nothing: the quotient is \<^verbatim>\<open>inf\<close>, \<^verbatim>\<open>-inf\<close> or
  \<^verbatim>\<open>nan\<close>. The result of a division is therefore a value of \<open>npfloat\<close>. Python's
  \<^verbatim>\<open>min([1, v])\<close> keeps \<^verbatim>\<open>1\<close> unless \<^verbatim>\<open>v < 1\<close>, and a comparison with \<^verbatim>\<open>nan\<close> is
  false. A run in which a value that is not finite would become part of an iterate or an
  estimate leaves the real-valued model; the model then stops with the outcome
  \<open>NonFinite\<close>, which is not an exception of the program.
\<close>

datatype npfloat = Finite real | PosInf | NegInf | NaN

definition np_divide :: "real \<Rightarrow> real \<Rightarrow> npfloat" where
  "np_divide a b =
     (if b \<noteq> 0 then Finite (a / b)
      else if 0 < a then PosInf
      else if a < 0 then NegInf
      else NaN)"

fun py_min_one :: "npfloat \<Rightarrow> npfloat" where
  "py_min_one (Finite v) = Finite (if v < 1 then v else 1)"
| "py_min_one PosInf = Finite 1"
| "py_min_one NegInf = NegInf"
| "py_min_one NaN = Finite 1"

text \<open>
  The step size of projected gradient descent is the quotient \<^verbatim>\<open>1/L\<close> of NumPy floats,
  which is \<^verbatim>\<open>inf\<close> when \<^verbatim>\<open>L\<close> is \<open>0\<close>. The array \<^verbatim>\<open>x - step_size * gradient\<close> that
  the solver passes to the problem's projection then has entries that are not finite:
  \<^verbatim>\<open>inf * v\<close> is \<^verbatim>\<open>inf\<close>, \<^verbatim>\<open>-inf\<close> or \<^verbatim>\<open>nan\<close> by the sign of \<open>v\<close>, and subtracting it from a
  finite entry gives the infinity of the other sign, or \<^verbatim>\<open>nan\<close>. That array is an
  argument and is stored nowhere; its entries are values of \<open>npfloat\<close>.
\<close>

fun float_times :: "npfloat \<Rightarrow> real \<Rightarrow> npfloat" where
  "float_times (Finite c) v = Finite (c * v)"
| "float_times PosInf v = (if 0 < v then PosInf else if v < 0 then NegInf else NaN)"
| "float_times NegInf v = (if 0 < v then NegInf else if v < 0 then PosInf else NaN)"
| "float_times NaN v = NaN"

fun float_minus :: "real \<Rightarrow> npfloat \<Rightarrow> npfloat" where
  "float_minus a (Finite b) = Finite (a - b)"
| "float_minus a PosInf = NegInf"
| "float_minus a NegInf = PosInf"
| "float_minus a NaN = NaN"

definition np_scale_float :: "npfloat \<Rightarrow> ndarray \<Rightarrow> npfloat list" where
  "np_scale_float c a = map (float_times c) a"

definition np_sub_float :: "ndarray \<Rightarrow> npfloat list \<Rightarrow> npfloat list" where
  "np_sub_float a b = map2 float_minus a b"

text \<open>
  One effect of float64 rounding is kept, in the divisor of the step size of the
  short-step variant: underflow to zero. The least positive float64 is \<open>1 / 2 ^ 1074\<close>; a
  product whose exact absolute value is at most half of it is rounded to \<^verbatim>\<open>0.0\<close> (round
  to nearest, ties to even). NumPy computes \<^verbatim>\<open>norm(d, ord=2)\<close> of a one-dimensional array
  as \<^verbatim>\<open>sqrt(d.dot(d))\<close>; when every product of the inner product is rounded to \<^verbatim>\<open>0.0\<close>,
  so is every partial sum, in whatever order the sum is taken. A result that is not
  rounded to zero is kept exact. The other quotients of the solvers are modelled with
  exact divisors.
\<close>

definition float64_tiny :: real where
  "float64_tiny = 1 / 2 ^ 1075"

definition float64_times :: "real \<Rightarrow> real \<Rightarrow> real" where
  "float64_times a b = (if \<bar>a * b\<bar> \<le> float64_tiny then 0 else a * b)"

definition float64_dot :: "ndarray \<Rightarrow> ndarray \<Rightarrow> real" where
  "float64_dot a b =
     (if \<forall>p\<in>set (zip a b). \<bar>fst p * snd p\<bar> \<le> float64_tiny then 0 else np_dot a b)"

definition float64_norm_ord2 :: "ndarray \<Rightarrow> real" where
  "float64_norm_ord2 a = sqrt (float64_dot a a)"

datatype error =
  AssertionError | ValueError | ZeroDivisionError | AttributeError | TypeError | NonFinite

text \<open>Division of plain Python numbers raises \<^verbatim>\<open>ZeroDivisionError\<close>.\<close>

definition py_divide :: "real \<Rightarrow> real \<Rightarrow> error + real" where
  "py_divide a b = (if b = 0 then Inl ZeroDivisionError else Inr (a / b))"

text \<open>
  The outcome of a call: \<open>None\<close> when the call never returns, \<open>Some (Inl e)\<close> when it
  raises \<open>e\<close>, \<open>Some (Inr v)\<close> when it returns \<open>v\<close>.
\<close>

type_synonym 'a outcome = "(error + 'a) option"

section \<open>The problem contract and the problem instance\<close>

text \<open>
  The abstract methods a concrete problem implements. The method
  \<^verbatim>\<open>_get_gradient_lipschitz_constant\<close> takes no argument and is a constant of the
  problem. The methods return finite values; the projection is the one method that the
  solvers may call with an array that has entries that are not finite.
\<close>

record contract =
  check_feasible :: "ndarray \<Rightarrow> bool"
  function_value :: "ndarray \<Rightarrow> real"
  gradient :: "ndarray \<Rightarrow> ndarray"
  get_gradient_lipschitz_constant :: real
  linear_oracle :: "ndarray \<Rightarrow> ndarray"
  projection :: "npfloat list \<Rightarrow> ndarray"
  line_search :: "ndarray \<Rightarrow> ndarray \<Rightarrow> real"

text \<open>
  The fields \<^verbatim>\<open>__init__\<close> sets and no solver changes. \<^verbatim>\<open>max_iterations\<close> is only ever
  compared with the integer iteration counter and is taken as an integer (the float
  \<^verbatim>\<open>1E05\<close> of \<^verbatim>\<open>main.py\<close> compares as \<open>100000\<close>). The gradient-Lipschitz constant is a
  NumPy float, as \<^verbatim>\<open>Lasso\<close> computes it with \<^verbatim>\<open>norm\<close>.
\<close>

record problem = contract +
  tolerance :: real
  max_iterations :: int
  x_0 :: ndarray
  gradient_lipschitz_constant :: real

section \<open>The mutable world: list objects, the clock, the output\<close>

text \<open>
  The histories \<^verbatim>\<open>_errors\<close> and \<^verbatim>\<open>_times\<close> are fields of the instance that hold
  references to list objects; a list object lives in the store under its address.
  \<open>now\<close> counts the calls of \<^verbatim>\<open>time()\<close> made so far, and the environment's \<open>clock\<close>
  gives the timestamp each call returns. \<open>stdout\<close> holds the printed lines.
\<close>

record world =
  store :: "nat \<Rightarrow> real list"
  next_addr :: nat
  errors_field :: "nat option"
  times_field :: "nat option"
  now :: nat
  stdout :: "string list"

text \<open>
  What the program takes from outside the repository: the wall clock and Python's
  formatting of a float with \<^verbatim>\<open>{:.2E}\<close>.
\<close>

record environment =
  clock :: "nat \<Rightarrow> real"
  format_2E :: "real \<Rightarrow> string"

definition time :: "environment \<Rightarrow> world \<Rightarrow> real \<times> world" where
  "time env w = (clock env (now w), w\<lparr>now := Suc (now w)\<rparr>)"

definition new_list :: "real list \<Rightarrow> world \<Rightarrow> nat \<times> world" where
  "new_list xs w =
     (next_addr w, w\<lparr>store := (store w)(next_addr w := xs), next_addr := Suc (next_addr w)\<rparr>)"

text \<open>\<^verbatim>\<open>self._errors.append(v)\<close>: the attribute is \<^verbatim>\<open>None\<close> until the wrapper sets it.\<close>

definition append_errors :: "real \<Rightarrow> world \<Rightarrow> error + world" where
  "append_errors v w =
     (case errors_field w of
        None \<Rightarrow> Inl AttributeError
      | Some a \<Rightarrow> Inr (w\<lparr>store := (store w)(a := store w a @ [v])\<rparr>))"

text \<open>\<^verbatim>\<open>self._times.append(time())\<close>\<close>

definition append_times :: "environment \<Rightarrow> world \<Rightarrow> error + world" where
  "append_times env w =
     (case times_field w of
        None \<Rightarrow> Inl AttributeError
      | Some a \<Rightarrow>
          (let (t, w1) = time env w
           in Inr (w1\<lparr>store := (store w1)(a := store w1 a @ [t])\<rparr>)))"

subsection \<open>Progress reporting\<close>

datatype stopping_condition = Iterations | Gap | Error

fun stopping_value :: "stopping_condition \<Rightarrow> string" where
  "stopping_value Iterations = ''maximum iterations reached''"
| "stopping_value Gap = ''gap is smaller than tolerance''"
| "stopping_value Error = ''error is smaller than tolerance''"

definition digit_char :: "nat \<Rightarrow> char" where
  "digit_char d = char_of (48 + d)"

function str_nat :: "nat \<Rightarrow> string" where
  "str_nat n = (if n < 10 then [digit_char n] else str_nat (n div 10) @ [digit_char (n mod 10)])"
  by pat_completeness auto
termination
  by (relation "measure id") auto

text \<open>
  \<^verbatim>\<open>__show_results(iteration, value, other)\<close>. The test \<^verbatim>\<open>if iteration and value\<close> is a
  test of truthiness: \<^verbatim>\<open>None\<close>, the integer \<^verbatim>\<open>0\<close> and the float \<^verbatim>\<open>0.0\<close> are all false.
  Likewise \<^verbatim>\<open>elif other\<close> is false for \<^verbatim>\<open>None\<close> and for the empty string.
\<close>

definition other_line :: "string option \<Rightarrow> string" where
  "other_line other = (case other of None \<Rightarrow> [] | Some s \<Rightarrow> if s \<noteq> [] then s else [])"

definition show_results_line :: "environment \<Rightarrow> nat option \<Rightarrow> real option \<Rightarrow> string option \<Rightarrow> string" where
  "show_results_line env iteration val other =
     (case (iteration, val) of
        (Some i, Some v) \<Rightarrow>
          if i \<noteq> 0 \<and> v \<noteq> 0
          then str_nat i @ [CHR 0x09] @ format_2E env v
          else other_line other
      | _ \<Rightarrow> other_line other)"

definition show_results :: "environment \<Rightarrow> nat option \<Rightarrow> real option \<Rightarrow> string option \<Rightarrow> world \<Rightarrow> world" where
  "show_results env iteration val other w =
     w\<lparr>stdout := stdout w @ [show_results_line env iteration val other]\<rparr>"

section \<open>The instrumentation wrapper\<close>

text \<open>
  \<^verbatim>\<open>optimization_algorithm(func)\<close> returns \<^verbatim>\<open>wrapper\<close>. \<^verbatim>\<open>list()\<close> makes a new list
  object, and so does the list comprehension of the return statement. The returned
  tuple holds the elapsed time, the reference in \<^verbatim>\<open>instance._errors\<close> and the reference
  to the new list of rebased times.
\<close>

definition optimization_algorithm ::
  "environment \<Rightarrow> (world \<Rightarrow> world outcome) \<Rightarrow> world \<Rightarrow> ((real \<times> nat option \<times> nat) \<times> world) outcome" where
  "optimization_algorithm env func w =
     (let (ea, w1) = new_list [] w;
          w2 = w1\<lparr>errors_field := Some ea\<rparr>;
          (ta, w3) = new_list [] w2;
          w4 = w3\<lparr>times_field := Some ta\<rparr>;
          (start_time, w5) = time env w4
      in case func w5 of
           None \<Rightarrow> None
         | Some (Inl e) \<Rightarrow> Some (Inl e)
         | Some (Inr w6) \<Rightarrow>
             (let (end_time, w7) = time env w6;
                  elapsed_time = end_time - start_time
              in case times_field w7 of
                   None \<Rightarrow> Some (Inl TypeError)
                 | Some tb \<Rightarrow>
                     (let (ra, w8) = new_list (map (\<lambda>item. item - start_time) (store w7 tb)) w7
                      in Some (Inr ((elapsed_time, errors_field w7, ra), w8)))))"

section \<open>The solvers\<close>

subsection \<open>Projected gradient descent\<close>

function projected_gradient_descent_loop ::
  "environment \<Rightarrow> problem \<Rightarrow> npfloat \<Rightarrow> nat \<Rightarrow> ndarray \<Rightarrow> world
     \<Rightarrow> error + (nat \<times> ndarray \<times> stopping_condition \<times> world)" where
  "projected_gradient_descent_loop env P step_size iteration x w =
     (if int iteration \<le> max_iterations P then
        (let err = function_value P x
         in case append_errors err w of
              Inl e \<Rightarrow> Inl e
            | Inr w1 \<Rightarrow>
                (let w2 = show_results env (Some iteration) (Some err) None w1
                 in if err < tolerance P then
                      (case append_times env w2 of
                         Inl e \<Rightarrow> Inl e
                       | Inr w3 \<Rightarrow> Inr (iteration, x, Error, w3))
                    else
                      (let x' = projection P (np_sub_float x (np_scale_float step_size (gradient P x)))
                       in case append_times env w2 of
                            Inl e \<Rightarrow> Inl e
                          | Inr w3 \<Rightarrow>
                              projected_gradient_descent_loop env P step_size (iteration + 1) x' w3)))
      else Inr (iteration, x, Iterations, w))"
  by pat_completeness auto
termination
  by (relation "measure (\<lambda>(env, P, step_size, iteration, x, w). nat (max_iterations P + 1 - int iteration))") auto

definition projected_gradient_descent_body :: "environment \<Rightarrow> problem \<Rightarrow> world \<Rightarrow> error + world" where
  "projected_gradient_descent_body env P w =
     (let step_size = np_divide 1 (gradient_lipschitz_constant P)
      in case projected_gradient_descent_loop env P step_size 0 (x_0 P) w of
           Inl e \<Rightarrow> Inl e
         | Inr (iteration, x, stopping, w1) \<Rightarrow>
             Inr (show_results env None None (Some (stopping_value stopping)) w1))"

definition projected_gradient_descent ::
  "environment \<Rightarrow> problem \<Rightarrow> world \<Rightarrow> ((real \<times> nat option \<times> nat) \<times> world) outcome" where
  "projected_gradient_descent env P =
     optimization_algorithm env (\<lambda>w. Some (projected_gradient_descent_body env P w))"

subsection \<open>Frank-Wolfe with the open-loop step size\<close>

definition open_loop_step_size :: "real \<Rightarrow> nat \<Rightarrow> error + real" where
  "open_loop_step_size parameter iteration_index =
     py_divide parameter (real iteration_index + parameter)"

function frank_wolfe_open_loop_loop ::
  "environment \<Rightarrow> problem \<Rightarrow> real \<Rightarrow> nat \<Rightarrow> ndarray \<Rightarrow> world
     \<Rightarrow> error + (nat \<times> ndarray \<times> stopping_condition \<times> world)" where
  "frank_wolfe_open_loop_loop env P parameter iteration x w =
     (if int iteration \<le> max_iterations P then
        (let g = gradient P x;
             s = linear_oracle P g;
             gap = np_dot g (np_sub x s)
         in case append_errors gap w of
              Inl e \<Rightarrow> Inl e
            | Inr w1 \<Rightarrow>
                (let w2 = show_results env (Some iteration) (Some gap) None w1
                 in if gap < tolerance P then
                      (case append_times env w2 of
                         Inl e \<Rightarrow> Inl e
                       | Inr w3 \<Rightarrow> Inr (iteration, x, Gap, w3))
                    else
                      (case open_loop_step_size parameter iteration of
                         Inl e \<Rightarrow> Inl e
                       | Inr step_size \<Rightarrow>
                           (let x' = np_add (np_scale (1 - step_size) x) (np_scale step_size s)
                            in case append_times env w2 of
                                 Inl e \<Rightarrow> Inl e
                               | Inr w3 \<Rightarrow>
                                   frank_wolfe_open_loop_loop env P parameter (iteration + 1) x' w3))))
      else Inr (iteration, x, Iterations, w))"
  by pat_completeness auto
termination
  by (relation "measure (\<lambda>(env, P, parameter, iteration, x, w). nat (max_iterations P + 1 - int iteration))") auto

definition frank_wolfe_open_loop_body :: "environment \<Rightarrow> problem \<Rightarrow> real \<Rightarrow> world \<Rightarrow> error + world" where
  "frank_wolfe_open_loop_body env P parameter w =
     (case frank_wolfe_open_loop_loop env P parameter 0 (x_0 P) w of
        Inl e \<Rightarrow> Inl e
      | Inr (iteration, x, stopping, w1) \<Rightarrow>
          Inr (show_results env None None (Some (stopping_value stopping)) w1))"

definition frank_wolfe_open_loop ::
  "environment \<Rightarrow> problem \<Rightarrow> real \<Rightarrow> world \<Rightarrow> ((real \<times> nat option \<times> nat) \<times> world) outcome" where
  "frank_wolfe_open_loop env P parameter =
     optimization_algorithm env (\<lambda>w. Some (frank_wolfe_open_loop_body env P parameter w))"

subsection \<open>Frank-Wolfe with short steps\<close>

text \<open>
  The inner \<^verbatim>\<open>__step_size(g_t, d_t)\<close> returns
  \<^verbatim>\<open>min([1, g_t / (L * power(norm(x=d_t, ord=2), 2))])\<close>. The divisor is computed in
  float64: the squared norm and the product with \<^verbatim>\<open>L\<close> are rounded to \<^verbatim>\<open>0.0\<close> when they
  underflow.
\<close>

definition short_steps_divisor :: "real \<Rightarrow> ndarray \<Rightarrow> real" where
  "short_steps_divisor lipschitz d_t =
     float64_times lipschitz (float64_times (float64_norm_ord2 d_t) (float64_norm_ord2 d_t))"

definition short_steps_step_size :: "real \<Rightarrow> real \<Rightarrow> ndarray \<Rightarrow> npfloat" where
  "short_steps_step_size lipschitz g_t d_t =
     py_min_one (np_divide g_t (short_steps_divisor lipschitz d_t))"

function frank_wolfe_short_steps_loop ::
  "environment \<Rightarrow> problem \<Rightarrow> nat \<Rightarrow> ndarray \<Rightarrow> world
     \<Rightarrow> error + (nat \<times> ndarray \<times> stopping_condition \<times> world)" where
  "frank_wolfe_short_steps_loop env P iteration x w =
     (if int iteration \<le> max_iterations P then
        (let g = gradient P x;
             s = linear_oracle P g;
             d = np_sub s x;
             gap = np_dot (np_neg g) d
         in case append_errors gap w of
              Inl e \<Rightarrow> Inl e
            | Inr w1 \<Rightarrow>
                (let w2 = show_results env (Some iteration) (Some gap) None w1
                 in if gap < tolerance P then
                      (case append_times env w2 of
                         Inl e \<Rightarrow> Inl e
                       | Inr w3 \<Rightarrow> Inr (iteration, x, Gap, w3))
                    else
                      (case short_steps_step_size (gradient_lipschitz_constant P) gap d of
                         Finite step_size \<Rightarrow>
                           (let x' = np_add x (np_scale step_size d)
                            in case append_times env w2 of
                                 Inl e \<Rightarrow> Inl e
                               | Inr w3 \<Rightarrow>
                                   frank_wolfe_short_steps_loop env P (iteration + 1) x' w3)
                       | _ \<Rightarrow> Inl NonFinite)))
      else Inr (iteration, x, Iterations, w))"
  by pat_completeness auto
termination
  by (relation "measure (\<lambda>(env, P, iteration, x, w). nat (max_iterations P + 1 - int iteration))") auto

definition frank_wolfe_short_steps_body :: "environment \<Rightarrow> problem \<Rightarrow> world \<Rightarrow> error + world" where
  "frank_wolfe_short_steps_body env P w =
     (case frank_wolfe_short_steps_loop env P 0 (x_0 P) w of
        Inl e \<Rightarrow> Inl e
      | Inr (iteration, x, stopping, w1) \<Rightarrow>
          Inr (show_results env None None (Some (stopping_value stopping)) w1))"

definition frank_wolfe_short_steps ::
  "environment \<Rightarrow> problem \<Rightarrow> world \<Rightarrow> ((real \<times> nat option \<times> nat) \<times> world) outcome" where
  "frank_wolfe_short_steps env P =
     optimization_algorithm env (\<lambda>w. Some (frank_wolfe_short_steps_body env P w))"

subsection \<open>Frank-Wolfe with the problem's line search\<close>

function frank_wolfe_line_search_loop ::
  "environment \<Rightarrow> problem \<Rightarrow> nat \<Rightarrow> ndarray \<Rightarrow> world
     \<Rightarrow> error + (nat \<times> ndarray \<times> stopping_condition \<times> world)" where
  "frank_wolfe_line_search_loop env P iteration x w =
     (if int iteration \<le> max_iterations P then
        (let g = gradient P x;
             s = linear_oracle P g;
             gap = np_dot g (np_sub x s)
         in case append_errors gap w of
              Inl e \<Rightarrow> Inl e
            | Inr w1 \<Rightarrow>
                (let w2 = show_results env (Some iteration) (Some gap) None w1
                 in if gap < tolerance P then
                      (case append_times env w2 of
                         Inl e \<Rightarrow> Inl e
                       | Inr w3 \<Rightarrow> Inr (iteration, x, Gap, w3))
                    else
                      (let step_size = line_search P s x;
                           x' = np_add (np_scale (1 - step_size) x) (np_scale step_size s)
                       in case append_times env w2 of
                            Inl e \<Rightarrow> Inl e
                          | Inr w3 \<Rightarrow>
                              frank_wolfe_line_search_loop env P (iteration + 1) x' w3)))
      else Inr (iteration, x, Iterations, w))"
  by pat_completeness auto
termination
  by (relation "measure (\<lambda>(env, P, iteration, x, w). nat (max_iterations P + 1 - int iteration))") auto

definition frank_wolfe_line_search_body :: "environment \<Rightarrow> problem \<Rightarrow> world \<Rightarrow> error + world" where
  "frank_wolfe_line_search_body env P w =
     (case frank_wolfe_line_search_loop env P 0 (x_0 P) w of
        Inl e \<Rightarrow> Inl e
      | Inr (iteration, x, stopping, w1) \<Rightarrow>
          Inr (show_results env None None (Some (stopping_value stopping)) w1))"

definition frank_wolfe_line_search ::
  "environment \<Rightarrow> problem \<Rightarrow> world \<Rightarrow> ((real \<times> nat option \<times> nat) \<times> world) outcome" where
  "frank_wolfe_line_search env P =
     optimization_algorithm env (\<lambda>w. Some (frank_wolfe_line_search_body env P w))"

subsection \<open>Frank-Wolfe with backtracking\<close>

definition tau :: real where
  "tau = 2"

definition eta :: real where
  "eta = 9 / 10"

text \<open>
  The \<^verbatim>\<open>while True\<close> loop of the inner \<^verbatim>\<open>__step_size\<close>. The names \<^verbatim>\<open>s\<close> and \<^verbatim>\<open>x\<close> in
  its test are the variables of the enclosing function, which at the call hold the
  arrays passed as \<^verbatim>\<open>s_t\<close> and \<^verbatim>\<open>x_t\<close>. The loop has no bound: the result \<open>None\<close>
  says that it runs forever.
\<close>

partial_function (option) backtracking_step_size_loop ::
  "problem \<Rightarrow> ndarray \<Rightarrow> ndarray \<Rightarrow> ndarray \<Rightarrow> real \<Rightarrow> (error + real \<times> real) option" where
  "backtracking_step_size_loop P gradient_t x_t s_t cap_m =
     (case py_min_one
             (np_divide (np_dot gradient_t (np_sub x_t s_t))
                        (cap_m * (norm_ord2 (np_sub x_t s_t)) ^ 2)) of
        Finite gamma \<Rightarrow>
          if 0 \<le> np_dot (gradient P (np_add x_t (np_scale gamma (np_sub s_t x_t)))) (np_sub x_t s_t)
          then Some (Inr (gamma, cap_m))
          else backtracking_step_size_loop P gradient_t x_t s_t (cap_m * tau)
      | PosInf \<Rightarrow> Some (Inl NonFinite)
      | NegInf \<Rightarrow> Some (Inl NonFinite)
      | NaN \<Rightarrow> Some (Inl NonFinite))"

definition backtracking_step_size ::
  "problem \<Rightarrow> real \<Rightarrow> ndarray \<Rightarrow> ndarray \<Rightarrow> ndarray \<Rightarrow> (error + real \<times> real) option" where
  "backtracking_step_size P cap_l_t gradient_t x_t s_t =
     backtracking_step_size_loop P gradient_t x_t s_t (eta * cap_l_t)"

text \<open>
  The estimate \<^verbatim>\<open>cap_l\<close> is \<^verbatim>\<open>None\<close> before the first iteration sets it; the product
  \<^verbatim>\<open>eta * None\<close> would raise \<^verbatim>\<open>TypeError\<close>.
\<close>

definition initial_cap_l :: "problem \<Rightarrow> ndarray \<Rightarrow> ndarray \<Rightarrow> ndarray \<Rightarrow> npfloat" where
  "initial_cap_l P g x d =
     np_divide (norm_ord2 (np_sub g (gradient P (np_add x (np_scale (tolerance P) d)))))
               (tolerance P * norm_ord2 d)"

function frank_wolfe_backtracking_loop ::
  "environment \<Rightarrow> problem \<Rightarrow> real option \<Rightarrow> nat \<Rightarrow> ndarray \<Rightarrow> world
     \<Rightarrow> (nat \<times> ndarray \<times> stopping_condition \<times> world) outcome" where
  "frank_wolfe_backtracking_loop env P cap_l iteration x w =
     (if int iteration \<le> max_iterations P then
        (let g = gradient P x;
             s = linear_oracle P g;
             d = np_sub s x;
             gap = np_dot (np_neg g) d
         in case append_errors gap w of
              Inl e \<Rightarrow> Some (Inl e)
            | Inr w1 \<Rightarrow>
                (let w2 = show_results env (Some iteration) (Some gap) None w1
                 in if gap < tolerance P then
                      (case append_times env w2 of
                         Inl e \<Rightarrow> Some (Inl e)
                       | Inr w3 \<Rightarrow> Some (Inr (iteration, x, Gap, w3)))
                    else
                      (case (if iteration = 0
                             then (case initial_cap_l P g x d of
                                     Finite l \<Rightarrow> Inr l
                                   | _ \<Rightarrow> Inl NonFinite)
                             else (case cap_l of
                                     None \<Rightarrow> Inl TypeError
                                   | Some l \<Rightarrow> Inr l)) of
                         Inl e \<Rightarrow> Some (Inl e)
                       | Inr cap_l_t \<Rightarrow>
                           (case backtracking_step_size P cap_l_t g x s of
                              None \<Rightarrow> None
                            | Some (Inl e) \<Rightarrow> Some (Inl e)
                            | Some (Inr (step_size, cap_l')) \<Rightarrow>
                                (let x' = np_add x (np_scale step_size d)
                                 in case append_times env w2 of
                                      Inl e \<Rightarrow> Some (Inl e)
                                    | Inr w3 \<Rightarrow>
                                        frank_wolfe_backtracking_loop env P (Some cap_l')
                                          (iteration + 1) x' w3)))))
      else Some (Inr (iteration, x, Iterations, w)))"
  by pat_completeness auto
termination
  by (relation "measure (\<lambda>(env, P, cap_l, iteration, x, w). nat (max_iterations P + 1 - int iteration))") auto

definition frank_wolfe_backtracking_body :: "environment \<Rightarrow> problem \<Rightarrow> world \<Rightarrow> world outcome" where
  "frank_wolfe_backtracking_body env P w =
     (case frank_wolfe_backtracking_loop env P None 0 (x_0 P) w of
        None \<Rightarrow> None
      | Some (Inl e) \<Rightarrow> Some (Inl e)
      | Some (Inr (iteration, x, stopping, w1)) \<Rightarrow>
          Some (Inr (show_results env None None (Some (stopping_value stopping)) w1)))"

definition frank_wolfe_backtracking ::
  "environment \<Rightarrow> problem \<Rightarrow> world \<Rightarrow> ((real \<times> nat option \<times> nat) \<times> world) outcome" where
  "frank_wolfe_backtracking env P =
     optimization_algorithm env (frank_wolfe_backtracking_body env P)"

section \<open>Construction of a problem instance\<close>

text \<open>
  \<^verbatim>\<open>GeneralProblem.__init__(tolerance, max_iterations, x_0, x_size)\<close>. The argument
  \<^verbatim>\<open>x_0\<close> is \<^verbatim>\<open>None\<close> or a NumPy array. The conditional expression
  \<^verbatim>\<open>x_0 if x_0 else zeros(shape=x_size)\<close> asks for the truth value of \<^verbatim>\<open>x_0\<close>: \<^verbatim>\<open>None\<close>
  is false, an array with one entry has the truth value of that entry, an empty array
  is false, and an array with more than one entry raises \<^verbatim>\<open>ValueError\<close> (its truth
  value is ambiguous).
\<close>

datatype x0_arg = PyNone | NdArray ndarray

fun truth_value :: "x0_arg \<Rightarrow> error + bool" where
  "truth_value PyNone = Inr False"
| "truth_value (NdArray []) = Inr False"
| "truth_value (NdArray [v]) = Inr (v \<noteq> 0)"
| "truth_value (NdArray (v # v' # vs)) = Inl ValueError"

definition init ::
  "contract \<Rightarrow> real \<Rightarrow> int \<Rightarrow> x0_arg \<Rightarrow> nat \<Rightarrow> world \<Rightarrow> error + (problem \<times> world)" where
  "init C tolerance_arg max_iterations_arg x_0_arg x_size w =
     (case truth_value x_0_arg of
        Inl e \<Rightarrow> Inl e
      | Inr truth \<Rightarrow>
          (let start = (case x_0_arg of
                          NdArray a \<Rightarrow> if truth then a else zeros x_size
                        | PyNone \<Rightarrow> zeros x_size)
           in if \<not> check_feasible C start then Inl AssertionError
              else Inr (\<lparr>check_feasible = check_feasible C,
                         function_value = function_value C,
                         gradient = gradient C,
                         get_gradient_lipschitz_constant = get_gradient_lipschitz_constant C,
                         linear_oracle = linear_oracle C,
                         projection = projection C,
                         line_search = line_search C,
                         tolerance = tolerance_arg,
                         max_iterations = max_iterations_arg,
                         x_0 = start,
                         gradient_lipschitz_constant = get_gradient_lipschitz_constant C\<rparr>,
                        w\<lparr>errors_field := None, times_field := None\<rparr>)))"

section \<open>The Lasso problem: feasible set and linear oracle\<close>

text \<open>
  \<^verbatim>\<open>Lasso._check_feasible\<close> and \<^verbatim>\<open>Lasso._linear_oracle\<close> of
  \<^verbatim>\<open>ProblemManager/Lasso.py\<close>. NumPy's \<^verbatim>\<open>argmax\<close> returns the first index of a largest
  entry and raises \<^verbatim>\<open>ValueError\<close> on an empty array; \<^verbatim>\<open>sign\<close> is \<open>-1\<close>, \<open>0\<close> or \<open>1\<close>.
  The index \<^verbatim>\<open>argmax\<close> returns is always within the array.
\<close>

definition Lasso_check_feasible :: "real \<Rightarrow> ndarray \<Rightarrow> bool" where
  "Lasso_check_feasible alpha x = (norm_ord1 x \<le> alpha)"

fun argmax_from :: "nat \<Rightarrow> real \<Rightarrow> nat \<Rightarrow> real list \<Rightarrow> nat" where
  "argmax_from best_index best i [] = best_index"
| "argmax_from best_index best i (v # vs) =
     (if best < v then argmax_from i v (Suc i) vs else argmax_from best_index best (Suc i) vs)"

definition np_argmax :: "ndarray \<Rightarrow> error + nat" where
  "np_argmax a = (case a of [] \<Rightarrow> Inl ValueError | v # vs \<Rightarrow> Inr (argmax_from 0 v 1 vs))"

definition Lasso_linear_oracle :: "real \<Rightarrow> ndarray \<Rightarrow> error + ndarray" where
  "Lasso_linear_oracle alpha x =
     (case np_argmax (map abs x) of
        Inl e \<Rightarrow> Inl e
      | Inr index \<Rightarrow> Inr ((zeros (length x))[index := - alpha * sgn (x ! index)]))"

section \<open>Invoking an algorithm by its name\<close>

text \<open>
  \<^verbatim>\<open>ExperimentManager/GeneralExperiment.py\<close> looks an algorithm up by its name
  (\<^verbatim>\<open>getattr(problem, variant_name)\<close>) and calls it as \<^verbatim>\<open>implementation(parameter)\<close>
  or \<^verbatim>\<open>implementation()\<close>. The five names are the five decorated methods.
\<close>

datatype variant =
    Projected_gradient_descent
  | Frank_wolfe_open_loop real
  | Frank_wolfe_short_steps
  | Frank_wolfe_line_search
  | Frank_wolfe_backtracking

fun implementation ::
  "environment \<Rightarrow> problem \<Rightarrow> variant \<Rightarrow> world \<Rightarrow> ((real \<times> nat option \<times> nat) \<times> world) outcome" where
  "implementation env P Projected_gradient_descent w = projected_gradient_descent env P w"
| "implementation env P (Frank_wolfe_open_loop parameter) w = frank_wolfe_open_loop env P parameter w"
| "implementation env P Frank_wolfe_short_steps w = frank_wolfe_short_steps env P w"
| "implementation env P Frank_wolfe_line_search w = frank_wolfe_line_search env P w"
| "implementation env P Frank_wolfe_backtracking w = frank_wolfe_backtracking env P w"

section \<open>Vocabulary of the specification\<close>

text \<open>
  \<open>logs env it es w w'\<close>: the world \<open>w'\<close> is \<open>w\<close> after the iterations numbered from
  \<open>it\<close> recorded the metrics \<open>es\<close>: each iteration appended its metric to the error
  history, printed one line and appended one timestamp to the time history, and nothing
  else changed. \<open>trace_ok\<close> relates the recorded metrics to the final iteration counter
  and the stopping condition. \<open>fresh_run_world w\<close> is the world in which the wrapper
  starts the algorithm body, and \<open>run_summary\<close> collects what a returned run leaves
  behind.
\<close>

definition logs :: "environment \<Rightarrow> nat \<Rightarrow> real list \<Rightarrow> world \<Rightarrow> world \<Rightarrow> bool" where
  "logs env it es w w' \<longleftrightarrow>
     (\<exists>ea ta. errors_field w = Some ea \<and> times_field w = Some ta \<and> ea \<noteq> ta \<and>
        errors_field w' = Some ea \<and> times_field w' = Some ta \<and>
        next_addr w' = next_addr w \<and>
        now w' = now w + length es \<and>
        stdout w' = stdout w @ map2 (\<lambda>i e. show_results_line env (Some i) (Some e) None) [it..<it + length es] es \<and>
        store w' ea = store w ea @ es \<and>
        store w' ta = store w ta @ map (clock env) [now w..<now w + length es] \<and>
        (\<forall>a. a \<noteq> ea \<longrightarrow> a \<noteq> ta \<longrightarrow> store w' a = store w a))"

definition trace_ok ::
  "problem \<Rightarrow> stopping_condition \<Rightarrow> nat \<Rightarrow> nat \<Rightarrow> stopping_condition \<Rightarrow> real list \<Rightarrow> bool" where
  "trace_ok P tag it it' sc es \<longleftrightarrow>
     it \<le> it' \<and> (sc = Iterations \<or> sc = tag) \<and>
     (it' = it \<or> int it' \<le> max_iterations P + 1) \<and>
     (sc = Iterations \<longrightarrow>
        length es = it' - it \<and> \<not> int it' \<le> max_iterations P \<and>
        (\<forall>e\<in>set es. \<not> e < tolerance P)) \<and>
     (sc \<noteq> Iterations \<longrightarrow>
        length es = it' - it + 1 \<and> int it' \<le> max_iterations P \<and>
        last es < tolerance P \<and> (\<forall>e\<in>set (butlast es). \<not> e < tolerance P))"

definition fresh_run_world :: "world \<Rightarrow> world" where
  "fresh_run_world w =
     (let (ea, w1) = new_list [] w;
          w2 = w1\<lparr>errors_field := Some ea\<rparr>;
          (ta, w3) = new_list [] w2;
          w4 = w3\<lparr>times_field := Some ta\<rparr>
      in w4\<lparr>now := Suc (now w4)\<rparr>)"

definition run_summary ::
  "environment \<Rightarrow> problem \<Rightarrow> stopping_condition \<Rightarrow> world \<Rightarrow> (real \<times> nat option \<times> nat) \<times> world
     \<Rightarrow> nat \<Rightarrow> stopping_condition \<Rightarrow> real list \<Rightarrow> bool" where
  "run_summary env P tag w r it' sc es \<longleftrightarrow>
     (case r of ((elapsed, eref, tref), w') \<Rightarrow>
        trace_ok P tag 0 it' sc es \<and>
        eref = Some (next_addr w) \<and> tref = next_addr w + 2 \<and> next_addr w' = next_addr w + 3 \<and>
        errors_field w' = Some (next_addr w) \<and> times_field w' = Some (Suc (next_addr w)) \<and>
        store w' (next_addr w) = es \<and>
        store w' (Suc (next_addr w)) = map (clock env) [Suc (now w)..<Suc (now w) + length es] \<and>
        store w' tref =
          map (\<lambda>item. item - clock env (now w))
            (map (clock env) [Suc (now w)..<Suc (now w) + length es]) \<and>
        (\<forall>a<next_addr w. store w' a = store w a) \<and>
        now w' = now w + length es + 2 \<and>
        elapsed = clock env (Suc (now w) + length es) - clock env (now w) \<and>
        stdout w' =
          stdout w @
          map2 (\<lambda>i e. show_results_line env (Some i) (Some e) None) [0..<length es] es @
          [stopping_value sc])"

text \<open>
  For the inner loop of the backtracking variant: \<open>candidate_step\<close> is the candidate
  \<^verbatim>\<open>gamma\<close> the loop computes for an estimate \<^verbatim>\<open>cap_m\<close>, \<open>accepted\<close> is the test under
  which it returns, and \<open>search_result\<close> says that \<open>(gamma, cap_m)\<close> is the first
  accepted pair among the estimates \<open>cap_m0 * tau ^ k\<close>, every earlier candidate being
  finite and rejected.
\<close>

definition candidate_step :: "ndarray \<Rightarrow> ndarray \<Rightarrow> ndarray \<Rightarrow> real \<Rightarrow> npfloat" where
  "candidate_step gradient_t x_t s_t cap_m =
     py_min_one (np_divide (np_dot gradient_t (np_sub x_t s_t))
                           (cap_m * (norm_ord2 (np_sub x_t s_t)) ^ 2))"

definition accepted :: "problem \<Rightarrow> ndarray \<Rightarrow> ndarray \<Rightarrow> real \<Rightarrow> bool" where
  "accepted P x_t s_t gamma \<longleftrightarrow>
     0 \<le> np_dot (gradient P (np_add x_t (np_scale gamma (np_sub s_t x_t)))) (np_sub x_t s_t)"

definition search_result ::
  "problem \<Rightarrow> ndarray \<Rightarrow> ndarray \<Rightarrow> ndarray \<Rightarrow> real \<Rightarrow> real \<Rightarrow> real \<Rightarrow> bool" where
  "search_result P gradient_t x_t s_t cap_m0 gamma cap_m \<longleftrightarrow>
     (\<exists>k. cap_m = cap_m0 * tau ^ k \<and>
          candidate_step gradient_t x_t s_t cap_m = Finite gamma \<and>
          accepted P x_t s_t gamma \<and>
          (\<forall>j<k. \<exists>gamma_j. candidate_step gradient_t x_t s_t (cap_m0 * tau ^ j) = Finite gamma_j \<and>
                            \<not> accepted P x_t s_t gamma_j))"




text \<open>
  Reading a returned trajectory: \<open>returned_histories\<close> gives the contents of the two
  returned lists, \<open>printed_lines\<close> the output after the run, and \<open>loop_end\<close> the final
  iteration counter (the number of completed update steps, since the counter grows by
  one with each update of \<open>x\<close>) together with the stopping condition of a loop.
\<close>

definition returned_histories ::
  "((real \<times> nat option \<times> nat) \<times> world) outcome \<Rightarrow> (real list \<times> real list) option" where
  "returned_histories r =
     (case r of
        Some (Inr ((elapsed, Some ea, ta), w')) \<Rightarrow> Some (store w' ea, store w' ta)
      | _ \<Rightarrow> None)"

definition printed_lines :: "((real \<times> nat option \<times> nat) \<times> world) outcome \<Rightarrow> string list" where
  "printed_lines r = (case r of Some (Inr (t, w')) \<Rightarrow> stdout w' | _ \<Rightarrow> [])"

definition loop_end ::
  "(nat \<times> ndarray \<times> stopping_condition \<times> world) outcome \<Rightarrow> (nat \<times> stopping_condition) option" where
  "loop_end r = (case r of Some (Inr (it, x, sc, w)) \<Rightarrow> Some (it, sc) | _ \<Rightarrow> None)"

section \<open>Concrete problems and worlds\<close>

text \<open>
  The world at program start, an environment whose clock returns \<open>0, 1, 2, \<dots>\<close>, and
  the Lasso problem in one dimension with \<^verbatim>\<open>A = [[1]]\<close>, \<^verbatim>\<open>b = [0]\<close> and
  \<^verbatim>\<open>alpha = 1\<close>: the objective is \<open>x\<^sup>2\<close>, the gradient \<open>2x\<close>, the feasible set the
  interval from \<open>-1\<close> to \<open>1\<close>.
\<close>

definition initial_world :: world where
  "initial_world =
     \<lparr>store = (\<lambda>a. []), next_addr = 0, errors_field = None, times_field = None,
      now = 0, stdout = []\<rparr>"

definition example_environment :: environment where
  "example_environment = \<lparr>clock = real, format_2E = (\<lambda>v. ''m.mmE+xx'')\<rparr>"

text \<open>
  The projection onto the interval from \<open>- a\<close> to \<open>a\<close> clips each entry of its argument:
  an infinite entry goes to the end of the interval on its side; the example problems
  send \<^verbatim>\<open>nan\<close> to \<open>0\<close>.
\<close>

definition clip :: "real \<Rightarrow> npfloat \<Rightarrow> real" where
  "clip a v =
     (case v of
        Finite r \<Rightarrow> max (- a) (min a r)
      | PosInf \<Rightarrow> a
      | NegInf \<Rightarrow> - a
      | NaN \<Rightarrow> 0)"

definition unit_oracle :: "ndarray \<Rightarrow> ndarray" where
  "unit_oracle g = (case Lasso_linear_oracle 1 g of Inl e \<Rightarrow> [] | Inr s \<Rightarrow> s)"

definition quadratic_contract :: contract where
  "quadratic_contract =
     \<lparr>check_feasible = Lasso_check_feasible 1,
      function_value = (\<lambda>x. np_dot x x),
      gradient = (\<lambda>x. np_scale 2 x),
      get_gradient_lipschitz_constant = 2,
      linear_oracle = unit_oracle,
      projection = map (clip 1),
      line_search = (\<lambda>s x. np_dot (np_sub s x) (np_neg x) / (norm_ord2 (np_sub s x)) ^ 2)\<rparr>"

text \<open>
  A problem with the objective \<open>|x + 3/4|\<close> on the same feasible set; its gradient method
  returns \<open>1\<close> to the right of the kink and \<open>-1\<close> elsewhere.
\<close>

definition kink_contract :: contract where
  "kink_contract =
     \<lparr>check_feasible = Lasso_check_feasible 1,
      function_value = (\<lambda>x. norm_ord1 (map (\<lambda>v. v + 3 / 4) x)),
      gradient = map (\<lambda>v. if - 3 / 4 < v then 1 else - 1),
      get_gradient_lipschitz_constant = 1,
      linear_oracle = unit_oracle,
      projection = map (clip 1),
      line_search = (\<lambda>s x. 1)\<rparr>"

text \<open>The instances \<^verbatim>\<open>__init__\<close> constructs from these contracts, without \<^verbatim>\<open>x_0\<close>.\<close>

definition constructed :: "contract \<Rightarrow> real \<Rightarrow> int \<Rightarrow> problem" where
  "constructed C tolerance_arg max_iterations_arg =
     fst (projr (init C tolerance_arg max_iterations_arg PyNone 1 initial_world))"

definition quadratic_problem :: problem where
  "quadratic_problem = constructed quadratic_contract (1 / 10) 5"

definition kink_problem :: problem where
  "kink_problem = constructed kink_contract (1 / 2) 1"



declare str_nat.simps [simp del]
declare projected_gradient_descent_loop.simps [simp del]
declare frank_wolfe_open_loop_loop.simps [simp del]
declare frank_wolfe_short_steps_loop.simps [simp del]
declare frank_wolfe_line_search_loop.simps [simp del]
declare frank_wolfe_backtracking_loop.simps [simp del]

section \<open>The histories of a run\<close>

lemma append_errors_Some:
  "errors_field w = Some ea \<Longrightarrow>
   append_errors v w = Inr (w\<lparr>store := (store w)(ea := store w ea @ [v])\<rparr>)"
  by (simp add: append_errors_def)


lemma logs_Nil:
  "errors_field w = Some ea \<Longrightarrow> times_field w = Some ta \<Longrightarrow> ea \<noteq> ta \<Longrightarrow> logs env it [] w w"
  by (simp add: logs_def)

lemma logs_one:
  assumes "errors_field w = Some ea" "times_field w = Some ta" "ea \<noteq> ta"
    and "append_errors v w = Inr w1"
    and "append_times env (show_results env (Some it) (Some v) None w1) = Inr w3"
  shows "logs env it [v] w w3"
  using assms
  by (auto simp: logs_def append_errors_Some append_times_def time_def show_results_def)

lemma upt_add_split: "[a..<a + (m + n)] = [a..<a + m] @ [a + m..<a + m + n]"
  by (metis add.assoc le_add1 upt_add_eq_append)

lemma logs_append:
  assumes "logs env it es w w1" and "logs env (it + length es) fs w1 w2"
  shows "logs env it (es @ fs) w w2"
  using assms unfolding logs_def
  apply clarsimp
  apply (simp add: upt_add_split zip_append)
  done

lemma trace_exhausted:
  "\<not> int it \<le> max_iterations P \<Longrightarrow> trace_ok P tag it it Iterations []"
  by (simp add: trace_ok_def)

lemma trace_break:
  "tag \<noteq> Iterations \<Longrightarrow> int it \<le> max_iterations P \<Longrightarrow> v < tolerance P \<Longrightarrow> trace_ok P tag it it tag [v]"
  by (simp add: trace_ok_def)

lemma trace_continue:
  "int it \<le> max_iterations P \<Longrightarrow> \<not> v < tolerance P \<Longrightarrow>
   trace_ok P tag (Suc it) it' sc es \<Longrightarrow> trace_ok P tag it it' sc (v # es)"
  by (auto simp: trace_ok_def)

lemma logs_fields:
  "logs env it es w w' \<Longrightarrow> errors_field w = Some ea \<Longrightarrow> times_field w = Some ta \<Longrightarrow>
   errors_field w' = Some ea \<and> times_field w' = Some ta \<and> ea \<noteq> ta"
  by (auto simp: logs_def)

lemma logs_Cons:
  assumes "errors_field w = Some ea" "times_field w = Some ta" "ea \<noteq> ta"
    and "append_errors v w = Inr w1"
    and "append_times env (show_results env (Some it) (Some v) None w1) = Inr w3"
    and "\<And>ea ta. errors_field w3 = Some ea \<Longrightarrow> times_field w3 = Some ta \<Longrightarrow> ea \<noteq> ta \<Longrightarrow>
           \<exists>es. logs env (Suc it) es w3 w' \<and> trace_ok P tag (Suc it) it' sc es"
    and "\<not> v < tolerance P" and "int it \<le> max_iterations P"
  shows "\<exists>es. logs env it es w w' \<and> trace_ok P tag it it' sc es"
proof -
  have one: "logs env it [v] w w3"
    using assms(1-5) by (rule logs_one)
  from logs_fields [OF one assms(1,2)] assms(6)
  obtain es where es: "logs env (Suc it) es w3 w'" "trace_ok P tag (Suc it) it' sc es"
    by blast
  have "logs env it ([v] @ es) w w'"
    using one es(1) by (intro logs_append) simp_all
  with es(2) assms(7,8) show ?thesis
    by (auto intro: trace_continue)
qed

lemma frank_wolfe_open_loop_loop_logs:
  "frank_wolfe_open_loop_loop env P parameter it x w = Inr (it', x', sc, w') \<Longrightarrow>
   errors_field w = Some ea \<Longrightarrow> times_field w = Some ta \<Longrightarrow> ea \<noteq> ta \<Longrightarrow>
   \<exists>es. logs env it es w w' \<and> trace_ok P Gap it it' sc es"
proof (induction env P parameter it x w arbitrary: ea ta rule: frank_wolfe_open_loop_loop.induct)
  case (1 env P parameter iteration x w)
  note unf = frank_wolfe_open_loop_loop.simps [of env P parameter iteration x w]
  show ?case
  proof (cases "int iteration \<le> max_iterations P")
    case False
    with "1.prems" show ?thesis
      by (auto simp: unf intro!: exI [of _ "[]"] logs_Nil trace_exhausted)
  next
    case True
    define g where "g = gradient P x"
    define s where "s = linear_oracle P g"
    define gap where "gap = np_dot g (np_sub x s)"
    obtain w1 where w1: "append_errors gap w = Inr w1"
      using "1.prems"(2) by (simp add: append_errors_Some)
    define w2 where "w2 = show_results env (Some iteration) (Some gap) None w1"
    obtain w3 where w3: "append_times env w2 = Inr w3"
      using "1.prems"(2,3) w1 by (auto simp: append_errors_Some append_times_def time_def w2_def show_results_def)
    show ?thesis
    proof (cases "gap < tolerance P")
      case brk: True
      have "w' = w3 \<and> it' = iteration \<and> sc = Gap"
        using "1.prems"(1) True brk w1 w3
        by (simp add: unf Let_def g_def s_def gap_def w2_def)
      with logs_one [OF "1.prems"(2,3,4) w1 w3 [unfolded w2_def]] trace_break [of Gap iteration P gap] True brk
      show ?thesis by auto
    next
      case cont: False
      from "1.prems"(1) True cont w1 w3
      obtain step_size where st: "open_loop_step_size parameter iteration = Inr step_size"
        and rec: "frank_wolfe_open_loop_loop env P parameter (iteration + 1)
           (np_add (np_scale (1 - step_size) x) (np_scale step_size s)) w3 = Inr (it', x', sc, w')"
        by (auto simp: unf Let_def g_def s_def gap_def w2_def split: sum.splits)
      show ?thesis
      proof (rule logs_Cons [OF "1.prems"(2,3,4) w1 w3 [unfolded w2_def] _ cont True])
        fix ea ta
        assume "errors_field w3 = Some ea" "times_field w3 = Some ta" "ea \<noteq> ta"
        with "1.IH" [OF True g_def s_def gap_def w1 w2_def cont st refl w3 _ this] rec
        show "\<exists>es. logs env (Suc iteration) es w3 w' \<and> trace_ok P Gap (Suc iteration) it' sc es"
          by simp
      qed
    qed
  qed
qed

lemma projected_gradient_descent_loop_logs:
  "projected_gradient_descent_loop env P step_size it x w = Inr (it', x', sc, w') \<Longrightarrow>
   errors_field w = Some ea \<Longrightarrow> times_field w = Some ta \<Longrightarrow> ea \<noteq> ta \<Longrightarrow>
   \<exists>es. logs env it es w w' \<and> trace_ok P Error it it' sc es"
proof (induction env P step_size it x w arbitrary: ea ta rule: projected_gradient_descent_loop.induct)
  case (1 env P step_size iteration x w)
  note unf = projected_gradient_descent_loop.simps [of env P step_size iteration x w]
  show ?case
  proof (cases "int iteration \<le> max_iterations P")
    case False
    with "1.prems" show ?thesis
      by (auto simp: unf intro!: exI [of _ "[]"] logs_Nil trace_exhausted)
  next
    case True
    define err where "err = function_value P x"
    obtain w1 where w1: "append_errors err w = Inr w1"
      using "1.prems"(2) by (simp add: append_errors_Some)
    define w2 where "w2 = show_results env (Some iteration) (Some err) None w1"
    obtain w3 where w3: "append_times env w2 = Inr w3"
      using "1.prems"(2,3) w1
      by (auto simp: append_errors_Some append_times_def time_def w2_def show_results_def)
    show ?thesis
    proof (cases "err < tolerance P")
      case brk: True
      have "w' = w3 \<and> it' = iteration \<and> sc = Error"
        using "1.prems"(1) True brk w1 w3
        by (simp add: unf Let_def err_def w2_def)
      with logs_one [OF "1.prems"(2,3,4) w1 w3 [unfolded w2_def]]
        trace_break [of Error iteration P err] True brk
      show ?thesis by auto
    next
      case cont: False
      from "1.prems"(1) True cont w1 w3
      have rec: "projected_gradient_descent_loop env P step_size (iteration + 1)
           (projection P (np_sub_float x (np_scale_float step_size (gradient P x)))) w3 = Inr (it', x', sc, w')"
        by (auto simp: unf Let_def err_def w2_def split: sum.splits)
      show ?thesis
      proof (rule logs_Cons [OF "1.prems"(2,3,4) w1 w3 [unfolded w2_def] _ cont True])
        fix ea ta
        assume "errors_field w3 = Some ea" "times_field w3 = Some ta" "ea \<noteq> ta"
        with "1.IH" [OF True err_def w1 w2_def cont refl w3 _ this] rec
        show "\<exists>es. logs env (Suc iteration) es w3 w' \<and> trace_ok P Error (Suc iteration) it' sc es"
          by simp
      qed
    qed
  qed
qed

lemma frank_wolfe_short_steps_loop_logs:
  "frank_wolfe_short_steps_loop env P it x w = Inr (it', x', sc, w') \<Longrightarrow>
   errors_field w = Some ea \<Longrightarrow> times_field w = Some ta \<Longrightarrow> ea \<noteq> ta \<Longrightarrow>
   \<exists>es. logs env it es w w' \<and> trace_ok P Gap it it' sc es"
proof (induction env P it x w arbitrary: ea ta rule: frank_wolfe_short_steps_loop.induct)
  case (1 env P iteration x w)
  note unf = frank_wolfe_short_steps_loop.simps [of env P iteration x w]
  show ?case
  proof (cases "int iteration \<le> max_iterations P")
    case False
    with "1.prems" show ?thesis
      by (auto simp: unf intro!: exI [of _ "[]"] logs_Nil trace_exhausted)
  next
    case True
    define g where "g = gradient P x"
    define s where "s = linear_oracle P g"
    define d where "d = np_sub s x"
    define gap where "gap = np_dot (np_neg g) d"
    obtain w1 where w1: "append_errors gap w = Inr w1"
      using "1.prems"(2) by (simp add: append_errors_Some)
    define w2 where "w2 = show_results env (Some iteration) (Some gap) None w1"
    obtain w3 where w3: "append_times env w2 = Inr w3"
      using "1.prems"(2,3) w1
      by (auto simp: append_errors_Some append_times_def time_def w2_def show_results_def)
    show ?thesis
    proof (cases "gap < tolerance P")
      case brk: True
      have "w' = w3 \<and> it' = iteration \<and> sc = Gap"
        using "1.prems"(1) True brk w1 w3
        by (simp add: unf Let_def g_def s_def d_def gap_def w2_def)
      with logs_one [OF "1.prems"(2,3,4) w1 w3 [unfolded w2_def]]
        trace_break [of Gap iteration P gap] True brk
      show ?thesis by auto
    next
      case cont: False
      from "1.prems"(1) True cont w1 w3
      obtain step_size where st: "short_steps_step_size (gradient_lipschitz_constant P) gap d = Finite step_size"
        and rec: "frank_wolfe_short_steps_loop env P (iteration + 1)
           (np_add x (np_scale step_size d)) w3 = Inr (it', x', sc, w')"
        by (auto simp: unf Let_def g_def s_def d_def gap_def w2_def split: sum.splits npfloat.splits)
      show ?thesis
      proof (rule logs_Cons [OF "1.prems"(2,3,4) w1 w3 [unfolded w2_def] _ cont True])
        fix ea ta
        assume "errors_field w3 = Some ea" "times_field w3 = Some ta" "ea \<noteq> ta"
        with "1.IH" [OF True g_def s_def d_def gap_def w1 w2_def cont st refl w3 _ this] rec
        show "\<exists>es. logs env (Suc iteration) es w3 w' \<and> trace_ok P Gap (Suc iteration) it' sc es"
          by simp
      qed
    qed
  qed
qed

lemma frank_wolfe_line_search_loop_logs:
  "frank_wolfe_line_search_loop env P it x w = Inr (it', x', sc, w') \<Longrightarrow>
   errors_field w = Some ea \<Longrightarrow> times_field w = Some ta \<Longrightarrow> ea \<noteq> ta \<Longrightarrow>
   \<exists>es. logs env it es w w' \<and> trace_ok P Gap it it' sc es"
proof (induction env P it x w arbitrary: ea ta rule: frank_wolfe_line_search_loop.induct)
  case (1 env P iteration x w)
  note unf = frank_wolfe_line_search_loop.simps [of env P iteration x w]
  show ?case
  proof (cases "int iteration \<le> max_iterations P")
    case False
    with "1.prems" show ?thesis
      by (auto simp: unf intro!: exI [of _ "[]"] logs_Nil trace_exhausted)
  next
    case True
    define g where "g = gradient P x"
    define s where "s = linear_oracle P g"
    define gap where "gap = np_dot g (np_sub x s)"
    obtain w1 where w1: "append_errors gap w = Inr w1"
      using "1.prems"(2) by (simp add: append_errors_Some)
    define w2 where "w2 = show_results env (Some iteration) (Some gap) None w1"
    obtain w3 where w3: "append_times env w2 = Inr w3"
      using "1.prems"(2,3) w1
      by (auto simp: append_errors_Some append_times_def time_def w2_def show_results_def)
    show ?thesis
    proof (cases "gap < tolerance P")
      case brk: True
      have "w' = w3 \<and> it' = iteration \<and> sc = Gap"
        using "1.prems"(1) True brk w1 w3
        by (simp add: unf Let_def g_def s_def gap_def w2_def)
      with logs_one [OF "1.prems"(2,3,4) w1 w3 [unfolded w2_def]]
        trace_break [of Gap iteration P gap] True brk
      show ?thesis by auto
    next
      case cont: False
      from "1.prems"(1) True cont w1 w3
      have rec: "frank_wolfe_line_search_loop env P (iteration + 1)
           (np_add (np_scale (1 - line_search P s x) x) (np_scale (line_search P s x) s)) w3 = Inr (it', x', sc, w')"
        by (auto simp: unf Let_def g_def s_def gap_def w2_def split: sum.splits)
      show ?thesis
      proof (rule logs_Cons [OF "1.prems"(2,3,4) w1 w3 [unfolded w2_def] _ cont True])
        fix ea ta
        assume "errors_field w3 = Some ea" "times_field w3 = Some ta" "ea \<noteq> ta"
        with "1.IH" [OF True g_def s_def gap_def w1 w2_def cont refl refl w3 _ this] rec
        show "\<exists>es. logs env (Suc iteration) es w3 w' \<and> trace_ok P Gap (Suc iteration) it' sc es"
          by simp
      qed
    qed
  qed
qed

lemma frank_wolfe_backtracking_loop_logs:
  "frank_wolfe_backtracking_loop env P cap_l it x w = Some (Inr (it', x', sc, w')) \<Longrightarrow>
   errors_field w = Some ea \<Longrightarrow> times_field w = Some ta \<Longrightarrow> ea \<noteq> ta \<Longrightarrow>
   \<exists>es. logs env it es w w' \<and> trace_ok P Gap it it' sc es"
proof (induction env P cap_l it x w arbitrary: ea ta rule: frank_wolfe_backtracking_loop.induct)
  case (1 env P cap_l iteration x w)
  note unf = frank_wolfe_backtracking_loop.simps [of env P cap_l iteration x w]
  show ?case
  proof (cases "int iteration \<le> max_iterations P")
    case False
    with "1.prems" show ?thesis
      by (auto simp: unf intro!: exI [of _ "[]"] logs_Nil trace_exhausted)
  next
    case True
    define g where "g = gradient P x"
    define s where "s = linear_oracle P g"
    define d where "d = np_sub s x"
    define gap where "gap = np_dot (np_neg g) d"
    obtain w1 where w1: "append_errors gap w = Inr w1"
      using "1.prems"(2) by (simp add: append_errors_Some)
    define w2 where "w2 = show_results env (Some iteration) (Some gap) None w1"
    obtain w3 where w3: "append_times env w2 = Inr w3"
      using "1.prems"(2,3) w1
      by (auto simp: append_errors_Some append_times_def time_def w2_def show_results_def)
    show ?thesis
    proof (cases "gap < tolerance P")
      case brk: True
      have "w' = w3 \<and> it' = iteration \<and> sc = Gap"
        using "1.prems"(1) True brk w1 w3
        by (simp add: unf Let_def g_def s_def d_def gap_def w2_def)
      with logs_one [OF "1.prems"(2,3,4) w1 w3 [unfolded w2_def]]
        trace_break [of Gap iteration P gap] True brk
      show ?thesis by auto
    next
      case cont: False
      define start where "start =
        (if iteration = 0
         then (case initial_cap_l P g x d of Finite l \<Rightarrow> Inr l | _ \<Rightarrow> Inl NonFinite)
         else (case cap_l of None \<Rightarrow> Inl TypeError | Some l \<Rightarrow> Inr l))"
      from "1.prems"(1) True cont w1 w3
      obtain cap_l_t step_size cap_l' where cl: "start = Inr cap_l_t"
        and st: "backtracking_step_size P cap_l_t g x s = Some (Inr (step_size, cap_l'))"
        and rec: "frank_wolfe_backtracking_loop env P (Some cap_l') (iteration + 1)
           (np_add x (np_scale step_size d)) w3 = Some (Inr (it', x', sc, w'))"
        by (auto simp: unf Let_def start_def g_def s_def d_def gap_def w2_def
            split: sum.splits option.splits prod.splits if_splits)
      show ?thesis
      proof (rule logs_Cons [OF "1.prems"(2,3,4) w1 w3 [unfolded w2_def] _ cont True])
        fix ea ta
        assume "errors_field w3 = Some ea" "times_field w3 = Some ta" "ea \<noteq> ta"
        with "1.IH" [OF True g_def s_def d_def gap_def w1 w2_def cont cl [unfolded start_def] st refl refl refl w3 _ this] rec
        show "\<exists>es. logs env (Suc iteration) es w3 w' \<and> trace_ok P Gap (Suc iteration) it' sc es"
          by simp
      qed
    qed
  qed
qed

lemma fresh_run_world_simps:
  "store (fresh_run_world w) = (store w)(next_addr w := [], Suc (next_addr w) := [])"
  "next_addr (fresh_run_world w) = next_addr w + 2"
  "errors_field (fresh_run_world w) = Some (next_addr w)"
  "times_field (fresh_run_world w) = Some (Suc (next_addr w))"
  "now (fresh_run_world w) = Suc (now w)"
  "stdout (fresh_run_world w) = stdout w"
  by (simp_all add: fresh_run_world_def new_list_def)

lemma optimization_algorithm_unfold:
  "optimization_algorithm env func w =
     (case func (fresh_run_world w) of
        None \<Rightarrow> None
      | Some (Inl e) \<Rightarrow> Some (Inl e)
      | Some (Inr w6) \<Rightarrow>
          (case times_field w6 of
             None \<Rightarrow> Some (Inl TypeError)
           | Some tb \<Rightarrow>
               Some (Inr ((clock env (now w6) - clock env (now w), errors_field w6, next_addr w6),
                          w6\<lparr>now := Suc (now w6),
                             store := (store w6)(next_addr w6 :=
                                        map (\<lambda>item. item - clock env (now w)) (store w6 tb)),
                             next_addr := Suc (next_addr w6)\<rparr>))))"
  by (simp add: optimization_algorithm_def new_list_def time_def fresh_run_world_def Let_def
      split: option.splits sum.splits)

lemma stopping_value_line:
  "show_results_line env None None (Some (stopping_value sc)) = stopping_value sc"
  by (cases sc) (simp_all add: show_results_line_def other_line_def)

lemma wrapper_summary:
  assumes run: "optimization_algorithm env func w = Some (Inr r)"
    and body: "\<And>w1. func (fresh_run_world w) = Some (Inr w1) \<Longrightarrow>
       \<exists>it' sc es w2. Q it' sc \<and> logs env 0 es (fresh_run_world w) w2 \<and> trace_ok P tag 0 it' sc es \<and>
          w1 = show_results env None None (Some (stopping_value sc)) w2"
  shows "\<exists>it' sc es. Q it' sc \<and> run_summary env P tag w r it' sc es"
proof -
  from run obtain w1 where w1: "func (fresh_run_world w) = Some (Inr w1)"
    by (auto simp: optimization_algorithm_unfold split: option.splits sum.splits)
  from body [OF w1] obtain it' sc es w2 where q: "Q it' sc"
    and lg: "logs env 0 es (fresh_run_world w) w2" and tr: "trace_ok P tag 0 it' sc es"
    and w1_eq: "w1 = show_results env None None (Some (stopping_value sc)) w2"
    by blast
  have "run_summary env P tag w r it' sc es"
    using run w1 lg tr
    unfolding optimization_algorithm_unfold w1_eq run_summary_def logs_def
    by (auto simp: show_results_def stopping_value_line fresh_run_world_simps)
  with q show ?thesis by blast
qed

lemma frank_wolfe_open_loop_summary:
  assumes "frank_wolfe_open_loop env P parameter w = Some (Inr r)"
  shows "\<exists>it' sc es.
           (\<exists>x' w2. frank_wolfe_open_loop_loop env P parameter 0 (x_0 P) (fresh_run_world w) = Inr (it', x', sc, w2)) \<and>
           run_summary env P Gap w r it' sc es"
proof (rule wrapper_summary [OF assms [unfolded frank_wolfe_open_loop_def]])
  fix w1
  assume "Some (frank_wolfe_open_loop_body env P parameter (fresh_run_world w)) = Some (Inr w1)"
  then obtain it' x' sc w2 where
    lp: "frank_wolfe_open_loop_loop env P parameter 0 (x_0 P) (fresh_run_world w) = Inr (it', x', sc, w2)"
    and w1: "w1 = show_results env None None (Some (stopping_value sc)) w2"
    by (auto simp: frank_wolfe_open_loop_body_def split: sum.splits prod.splits option.splits npfloat.splits)
  from frank_wolfe_open_loop_loop_logs [OF lp fresh_run_world_simps(3,4)]
  obtain es where "logs env 0 es (fresh_run_world w) w2" "trace_ok P Gap 0 it' sc es"
    by auto
  with lp w1
  show "\<exists>it' sc es w2.
          (\<exists>x' w2. frank_wolfe_open_loop_loop env P parameter 0 (x_0 P) (fresh_run_world w) = Inr (it', x', sc, w2)) \<and>
          logs env 0 es (fresh_run_world w) w2 \<and> trace_ok P Gap 0 it' sc es \<and>
          w1 = show_results env None None (Some (stopping_value sc)) w2"
    by blast
qed

lemma frank_wolfe_short_steps_summary:
  assumes "frank_wolfe_short_steps env P w = Some (Inr r)"
  shows "\<exists>it' sc es.
           (\<exists>x' w2. frank_wolfe_short_steps_loop env P 0 (x_0 P) (fresh_run_world w) = Inr (it', x', sc, w2)) \<and>
           run_summary env P Gap w r it' sc es"
proof (rule wrapper_summary [OF assms [unfolded frank_wolfe_short_steps_def]])
  fix w1
  assume "Some (frank_wolfe_short_steps_body env P (fresh_run_world w)) = Some (Inr w1)"
  then obtain it' x' sc w2 where
    lp: "frank_wolfe_short_steps_loop env P 0 (x_0 P) (fresh_run_world w) = Inr (it', x', sc, w2)"
    and w1: "w1 = show_results env None None (Some (stopping_value sc)) w2"
    by (auto simp: frank_wolfe_short_steps_body_def split: sum.splits prod.splits option.splits npfloat.splits)
  from frank_wolfe_short_steps_loop_logs [OF lp fresh_run_world_simps(3,4)]
  obtain es where "logs env 0 es (fresh_run_world w) w2" "trace_ok P Gap 0 it' sc es"
    by auto
  with lp w1
  show "\<exists>it' sc es w2.
          (\<exists>x' w2. frank_wolfe_short_steps_loop env P 0 (x_0 P) (fresh_run_world w) = Inr (it', x', sc, w2)) \<and>
          logs env 0 es (fresh_run_world w) w2 \<and> trace_ok P Gap 0 it' sc es \<and>
          w1 = show_results env None None (Some (stopping_value sc)) w2"
    by blast
qed

lemma frank_wolfe_line_search_summary:
  assumes "frank_wolfe_line_search env P w = Some (Inr r)"
  shows "\<exists>it' sc es.
           (\<exists>x' w2. frank_wolfe_line_search_loop env P 0 (x_0 P) (fresh_run_world w) = Inr (it', x', sc, w2)) \<and>
           run_summary env P Gap w r it' sc es"
proof (rule wrapper_summary [OF assms [unfolded frank_wolfe_line_search_def]])
  fix w1
  assume "Some (frank_wolfe_line_search_body env P (fresh_run_world w)) = Some (Inr w1)"
  then obtain it' x' sc w2 where
    lp: "frank_wolfe_line_search_loop env P 0 (x_0 P) (fresh_run_world w) = Inr (it', x', sc, w2)"
    and w1: "w1 = show_results env None None (Some (stopping_value sc)) w2"
    by (auto simp: frank_wolfe_line_search_body_def split: sum.splits prod.splits option.splits npfloat.splits)
  from frank_wolfe_line_search_loop_logs [OF lp fresh_run_world_simps(3,4)]
  obtain es where "logs env 0 es (fresh_run_world w) w2" "trace_ok P Gap 0 it' sc es"
    by auto
  with lp w1
  show "\<exists>it' sc es w2.
          (\<exists>x' w2. frank_wolfe_line_search_loop env P 0 (x_0 P) (fresh_run_world w) = Inr (it', x', sc, w2)) \<and>
          logs env 0 es (fresh_run_world w) w2 \<and> trace_ok P Gap 0 it' sc es \<and>
          w1 = show_results env None None (Some (stopping_value sc)) w2"
    by blast
qed

lemma frank_wolfe_backtracking_summary:
  assumes "frank_wolfe_backtracking env P w = Some (Inr r)"
  shows "\<exists>it' sc es.
           (\<exists>x' w2. frank_wolfe_backtracking_loop env P None 0 (x_0 P) (fresh_run_world w) = Some (Inr (it', x', sc, w2))) \<and>
           run_summary env P Gap w r it' sc es"
proof (rule wrapper_summary [OF assms [unfolded frank_wolfe_backtracking_def]])
  fix w1
  assume "frank_wolfe_backtracking_body env P (fresh_run_world w) = Some (Inr w1)"
  then obtain it' x' sc w2 where
    lp: "frank_wolfe_backtracking_loop env P None 0 (x_0 P) (fresh_run_world w) = Some (Inr (it', x', sc, w2))"
    and w1: "w1 = show_results env None None (Some (stopping_value sc)) w2"
    by (auto simp: frank_wolfe_backtracking_body_def split: sum.splits prod.splits option.splits npfloat.splits)
  from frank_wolfe_backtracking_loop_logs [OF lp fresh_run_world_simps(3,4)]
  obtain es where "logs env 0 es (fresh_run_world w) w2" "trace_ok P Gap 0 it' sc es"
    by auto
  with lp w1
  show "\<exists>it' sc es w2.
          (\<exists>x' w2. frank_wolfe_backtracking_loop env P None 0 (x_0 P) (fresh_run_world w) = Some (Inr (it', x', sc, w2))) \<and>
          logs env 0 es (fresh_run_world w) w2 \<and> trace_ok P Gap 0 it' sc es \<and>
          w1 = show_results env None None (Some (stopping_value sc)) w2"
    by blast
qed

lemma projected_gradient_descent_summary:
  assumes "projected_gradient_descent env P w = Some (Inr r)"
  shows "\<exists>it' sc es.
           (\<exists>x' w2.
              projected_gradient_descent_loop env P (np_divide 1 (gradient_lipschitz_constant P)) 0
                (x_0 P) (fresh_run_world w) = Inr (it', x', sc, w2)) \<and>
           run_summary env P Error w r it' sc es"
proof (rule wrapper_summary [OF assms [unfolded projected_gradient_descent_def]])
  fix w1
  assume "Some (projected_gradient_descent_body env P (fresh_run_world w)) = Some (Inr w1)"
  then obtain it' x' sc w2 where
    lp: "projected_gradient_descent_loop env P (np_divide 1 (gradient_lipschitz_constant P)) 0
           (x_0 P) (fresh_run_world w) = Inr (it', x', sc, w2)"
    and w1: "w1 = show_results env None None (Some (stopping_value sc)) w2"
    by (auto simp: projected_gradient_descent_body_def Let_def split: sum.splits prod.splits)
  from projected_gradient_descent_loop_logs [OF lp fresh_run_world_simps(3,4)]
  obtain es where "logs env 0 es (fresh_run_world w) w2" "trace_ok P Error 0 it' sc es"
    by auto
  with lp w1
  show "\<exists>it' sc es w2.
          (\<exists>x' w2.
              projected_gradient_descent_loop env P (np_divide 1 (gradient_lipschitz_constant P)) 0
                (x_0 P) (fresh_run_world w) = Inr (it', x', sc, w2)) \<and>
          logs env 0 es (fresh_run_world w) w2 \<and> trace_ok P Error 0 it' sc es \<and>
          w1 = show_results env None None (Some (stopping_value sc)) w2"
    by blast
qed

section \<open>Arrays and the Lasso oracle\<close>

lemma argmax_from_less:
  "best_index < i \<Longrightarrow> argmax_from best_index best i vs < i + length vs"
proof (induction vs arbitrary: best_index best i)
  case Nil
  then show ?case by simp
next
  case (Cons v vs)
  have "argmax_from i v (Suc i) vs < Suc i + length vs"
    by (rule Cons.IH) simp
  moreover have "argmax_from best_index best (Suc i) vs < Suc i + length vs"
    using Cons.prems by (intro Cons.IH) simp
  ultimately show ?case by simp
qed

lemma np_argmax_in_range:
  "a \<noteq> [] \<Longrightarrow> \<exists>k. np_argmax a = Inr k \<and> k < length a"
  using argmax_from_less [of 0 1]
  by (cases a) (auto simp: np_argmax_def)

lemma zeros_update_conv:
  "k < n \<Longrightarrow> (zeros n)[k := c] = replicate k 0 @ c # replicate (n - Suc k) 0"
  by (simp add: zeros_def upd_conv_take_nth_drop min_def)





section \<open>The concrete problems and the backtracking search\<close>

lemma quadratic_problem_simps:
  "tolerance quadratic_problem = 1 / 10"
  "max_iterations quadratic_problem = 5"
  "x_0 quadratic_problem = [0]"
  "gradient_lipschitz_constant quadratic_problem = 2"
  "gradient quadratic_problem = np_scale 2"
  "linear_oracle quadratic_problem = unit_oracle"
  "line_search quadratic_problem = (\<lambda>s x. np_dot (np_sub s x) (np_neg x) / (norm_ord2 (np_sub s x)) ^ 2)"
  "function_value quadratic_problem = (\<lambda>x. np_dot x x)"
  "projection quadratic_problem = map (clip 1)"
  by (simp_all add: quadratic_problem_def constructed_def init_def quadratic_contract_def zeros_def
      Lasso_check_feasible_def norm_ord1_def)

lemma kink_problem_simps:
  "tolerance kink_problem = 1 / 2"
  "max_iterations kink_problem = 1"
  "x_0 kink_problem = [0]"
  "gradient_lipschitz_constant kink_problem = 1"
  "gradient kink_problem = map (\<lambda>v. if - 3 / 4 < v then 1 else - 1)"
  "linear_oracle kink_problem = unit_oracle"
  "line_search kink_problem = (\<lambda>s x. 1)"
  "projection kink_problem = map (clip 1)"
  by (simp_all add: kink_problem_def constructed_def init_def kink_contract_def zeros_def
      Lasso_check_feasible_def norm_ord1_def)

lemma unit_oracle_single: "unit_oracle [v] = [- sgn v]"
  by (simp add: unit_oracle_def Lasso_linear_oracle_def np_argmax_def zeros_def)

lemmas np_defs = np_add_def np_sub_def np_scale_def np_neg_def np_dot_def norm_ord1_def norm_ord2_def

lemma backtracking_step_size_loop_unfold:
  "backtracking_step_size_loop P gradient_t x_t s_t cap_m =
     (case candidate_step gradient_t x_t s_t cap_m of
        Finite gamma \<Rightarrow>
          if accepted P x_t s_t gamma then Some (Inr (gamma, cap_m))
          else backtracking_step_size_loop P gradient_t x_t s_t (cap_m * tau)
      | _ \<Rightarrow> Some (Inl NonFinite))"
  by (subst backtracking_step_size_loop.simps)
     (simp add: candidate_step_def accepted_def split: npfloat.splits)

lemma search_result_here:
  "candidate_step g x s m = Finite gamma \<Longrightarrow> accepted P x s gamma \<Longrightarrow> search_result P g x s m gamma m"
  unfolding search_result_def by (rule exI [of _ 0]) simp

lemma search_result_later:
  assumes "candidate_step g x s m = Finite gamma0" and "\<not> accepted P x s gamma0"
    and "search_result P g x s (m * tau) gamma cap_m"
  shows "search_result P g x s m gamma cap_m"
proof -
  from assms(3) obtain k where k: "cap_m = m * tau * tau ^ k"
    "candidate_step g x s cap_m = Finite gamma" "accepted P x s gamma"
    "\<forall>j<k. \<exists>gamma_j. candidate_step g x s (m * tau * tau ^ j) = Finite gamma_j \<and> \<not> accepted P x s gamma_j"
    unfolding search_result_def by blast
  have "\<exists>gamma_j. candidate_step g x s (m * tau ^ j) = Finite gamma_j \<and> \<not> accepted P x s gamma_j"
    if "j < Suc k" for j
  proof (cases j)
    case 0
    with assms(1,2) show ?thesis by simp
  next
    case (Suc i)
    with that k(4) have "\<exists>gamma_j. candidate_step g x s (m * tau * tau ^ i) = Finite gamma_j \<and> \<not> accepted P x s gamma_j"
      by simp
    with Suc show ?thesis by (simp add: mult.assoc)
  qed
  with k(1,2,3) show ?thesis
    unfolding search_result_def by (intro exI [of _ "Suc k"]) (simp add: mult.assoc)
qed

lemma backtracking_step_size_loop_sound:
  assumes run: "backtracking_step_size_loop P g x s m = Some (Inr (gamma, cap_m))"
  shows "search_result P g x s m gamma cap_m"
proof -
  let ?R = "\<lambda>(args :: (((problem \<times> ndarray) \<times> ndarray) \<times> ndarray) \<times> real) (y :: error + real \<times> real).
              case args of ((((P, g), x), s), m) \<Rightarrow>
                \<forall>gamma cap_m. y = Inr (gamma, cap_m) \<longrightarrow> search_result P g x s m gamma cap_m"
  have "?R ((((P, g), x), s), m) (Inr (gamma, cap_m))"
  proof (rule backtracking_step_size_loop.raw_induct [where Pa = ?R, OF _ run])
    fix loop P g x s m and y :: "error + real \<times> real"
    assume IH: "\<And>P g x s m y. loop P g x s m = Some y \<Longrightarrow> ?R ((((P, g), x), s), m) y"
      and unf0: "(case py_min_one
             (np_divide (np_dot g (np_sub x s)) (m * (norm_ord2 (np_sub x s)) ^ 2)) of
        Finite gamma \<Rightarrow>
          if 0 \<le> np_dot (gradient P (np_add x (np_scale gamma (np_sub s x)))) (np_sub x s)
          then Some (Inr (gamma, m))
          else loop P g x s (m * tau)
      | PosInf \<Rightarrow> Some (Inl NonFinite)
      | NegInf \<Rightarrow> Some (Inl NonFinite)
      | NaN \<Rightarrow> Some (Inl NonFinite)) = Some y"
    have unf: "(case candidate_step g x s m of
                  Finite gamma \<Rightarrow>
                    if accepted P x s gamma then Some (Inr (gamma, m)) else loop P g x s (m * tau)
                | _ \<Rightarrow> Some (Inl NonFinite)) = Some y"
      using unf0 by (auto simp: candidate_step_def accepted_def split: npfloat.splits)
    show "?R ((((P, g), x), s), m) y"
    proof (cases "candidate_step g x s m")
      case (Finite gamma0)
      show ?thesis
      proof (cases "accepted P x s gamma0")
        case True
        with unf Finite have "y = Inr (gamma0, m)" by simp
        with search_result_here [OF Finite True] show ?thesis by simp
      next
        case False
        with unf Finite have "loop P g x s (m * tau) = Some y"
          by simp
        from IH [OF this] Finite False show ?thesis
          by (auto intro: search_result_later)
      qed
    qed (use unf in auto)
  qed
  then show ?thesis by simp
qed

lemma backtracking_step_size_loop_complete:
  "search_result P g x s m gamma cap_m \<Longrightarrow>
   backtracking_step_size_loop P g x s m = Some (Inr (gamma, cap_m))"
proof -
  have "cap_m = m * tau ^ k \<Longrightarrow> candidate_step g x s cap_m = Finite gamma \<Longrightarrow> accepted P x s gamma \<Longrightarrow>
     (\<forall>j<k. \<exists>gamma_j. candidate_step g x s (m * tau ^ j) = Finite gamma_j \<and> \<not> accepted P x s gamma_j) \<Longrightarrow>
     backtracking_step_size_loop P g x s m = Some (Inr (gamma, cap_m))" for k
  proof (induction k arbitrary: m)
    case 0
    then show ?case
      by (subst backtracking_step_size_loop_unfold) simp
  next
    case (Suc k)
    from Suc.prems(4) obtain gamma0 where g0: "candidate_step g x s m = Finite gamma0" "\<not> accepted P x s gamma0"
      by force
    have "backtracking_step_size_loop P g x s (m * tau) = Some (Inr (gamma, cap_m))"
    proof (rule Suc.IH)
      show "cap_m = m * tau * tau ^ k"
        using Suc.prems(1) by (simp add: mult.assoc)
      show "\<forall>j<k. \<exists>gamma_j. candidate_step g x s (m * tau * tau ^ j) = Finite gamma_j \<and> \<not> accepted P x s gamma_j"
      proof (intro allI impI)
        fix j assume "j < k"
        then have "Suc j < Suc k" by simp
        with Suc.prems(4) have "\<exists>gamma_j. candidate_step g x s (m * tau ^ Suc j) = Finite gamma_j \<and> \<not> accepted P x s gamma_j"
          by blast
        then show "\<exists>gamma_j. candidate_step g x s (m * tau * tau ^ j) = Finite gamma_j \<and> \<not> accepted P x s gamma_j"
          by (simp add: mult.assoc)
      qed
    qed (use Suc.prems in simp_all)
    with g0 show ?case
      by (subst backtracking_step_size_loop_unfold) simp
  qed
  then show "search_result P g x s m gamma cap_m \<Longrightarrow> ?thesis"
    unfolding search_result_def by blast
qed

lemma norm_ord2_single: "norm_ord2 [v] = \<bar>v\<bar>"
  by (simp add: norm_ord2_def)

lemma np_sub_swap_dot: "np_dot g (np_sub x s) = np_dot (np_neg g) (np_sub s x)"
  unfolding np_dot_def np_sub_def np_neg_def
proof (induction x s arbitrary: g rule: list_induct2')
  case (4 a x b s)
  then show ?case by (cases g) (simp_all add: algebra_simps)
qed simp_all

lemma norm_ord2_sub_swap: "norm_ord2 (np_sub x s) = norm_ord2 (np_sub s x)"
proof -
  have "map (\<lambda>v. v ^ 2) (map2 (-) x s) = map (\<lambda>v. v ^ 2) (map2 (-) s x)"
    by (induction x s rule: list_induct2') (simp_all add: power2_commute)
  then show ?thesis by (simp add: norm_ord2_def np_sub_def)
qed

lemma candidate_step_gap:
  assumes "cap_m * (norm_ord2 (np_sub s x)) ^ 2 \<noteq> 0"
  shows "candidate_step g x s cap_m =
     Finite (min 1 (np_dot (np_neg g) (np_sub s x) / (cap_m * (norm_ord2 (np_sub s x)) ^ 2)))"
  using assms
  by (simp add: candidate_step_def np_divide_def np_sub_swap_dot [of g x s]
      norm_ord2_sub_swap [of x s] min_def)

lemma backtracking_step_size_iff:
  "backtracking_step_size P cap_l g x s = Some (Inr (gamma, cap_m)) \<longleftrightarrow>
   search_result P g x s (eta * cap_l) gamma cap_m"
  unfolding backtracking_step_size_def
  using backtracking_step_size_loop_sound backtracking_step_size_loop_complete by blast

lemma frank_wolfe_backtracking_loop_step:
  assumes "g = gradient P x" and "s = linear_oracle P g" and "d = np_sub s x"
    and "gap = np_dot (np_neg g) d"
    and "int it \<le> max_iterations P" and "\<not> gap < tolerance P"
    and "(it = 0 \<and> initial_cap_l P g x d = Finite cap_l_t) \<or> (it \<noteq> 0 \<and> cap_l = Some cap_l_t)"
    and "append_errors gap w = Inr w1"
    and "append_times env (show_results env (Some it) (Some gap) None w1) = Inr w3"
    and "backtracking_step_size P cap_l_t g x s = Some (Inr (gamma, cap_m))"
  shows "frank_wolfe_backtracking_loop env P cap_l it x w =
         frank_wolfe_backtracking_loop env P (Some cap_m) (it + 1) (np_add x (np_scale gamma d)) w3"
  using assms
  by (auto simp: frank_wolfe_backtracking_loop.simps [of env P cap_l it x w] Let_def)

section \<open>Runs of the algorithms\<close>

lemma implementation_summary:
  assumes "implementation env P v w = Some (Inr r)"
  shows "\<exists>tag it' sc es. run_summary env P tag w r it' sc es"
proof (cases v)
  case Projected_gradient_descent
  with assms projected_gradient_descent_summary [of env P w r] show ?thesis by auto
next
  case (Frank_wolfe_open_loop parameter)
  with assms frank_wolfe_open_loop_summary [of env P parameter w r] show ?thesis by auto
next
  case Frank_wolfe_short_steps
  with assms frank_wolfe_short_steps_summary [of env P w r] show ?thesis by auto
next
  case Frank_wolfe_line_search
  with assms frank_wolfe_line_search_summary [of env P w r] show ?thesis by auto
next
  case Frank_wolfe_backtracking
  with assms frank_wolfe_backtracking_summary [of env P w r] show ?thesis by auto
qed

lemmas world_defs = append_errors_def append_times_def time_def show_results_def new_list_def

lemmas step_defs = open_loop_step_size_def py_divide_def short_steps_step_size_def np_divide_def

lemma initial_world_simps:
  "store initial_world = (\<lambda>a. [])" "next_addr initial_world = 0" "now initial_world = 0"
  "stdout initial_world = []" "errors_field initial_world = None" "times_field initial_world = None"
  by (simp_all add: initial_world_def)

lemma example_environment_simps:
  "clock example_environment = real" "format_2E example_environment = (\<lambda>v. ''m.mmE+xx'')"
  by (simp_all add: example_environment_def)

lemma quadratic_line_search_run:
  "\<exists>w'. frank_wolfe_line_search example_environment quadratic_problem initial_world =
          Some (Inr ((2, Some 0, 2), w')) \<and>
        store w' 0 = [0] \<and> store w' 2 = [1] \<and>
        stdout w' = [[], ''gap is smaller than tolerance'']"
  by (simp add: frank_wolfe_line_search_def optimization_algorithm_unfold
      frank_wolfe_line_search_body_def frank_wolfe_line_search_loop.simps
      quadratic_problem_simps unit_oracle_single np_defs world_defs fresh_run_world_simps
      initial_world_simps example_environment_simps Let_def show_results_line_def other_line_def)

lemma quadratic_short_steps_run:
  "\<exists>w'. frank_wolfe_short_steps example_environment quadratic_problem initial_world =
          Some (Inr ((2, Some 0, 2), w')) \<and>
        store w' 0 = [0] \<and> store w' 2 = [1] \<and> next_addr w' = 3 \<and> now w' = 3 \<and>
        (\<exists>w''. frank_wolfe_line_search example_environment quadratic_problem w' =
           Some (Inr ((2, Some 3, 5), w'')) \<and>
           store w'' 0 = [0] \<and> store w'' 2 = [1] \<and> store w'' 3 = [0] \<and> store w'' 5 = [1])"
  by (simp add: frank_wolfe_short_steps_def frank_wolfe_line_search_def optimization_algorithm_unfold
      frank_wolfe_short_steps_body_def frank_wolfe_short_steps_loop.simps
      frank_wolfe_line_search_body_def frank_wolfe_line_search_loop.simps
      quadratic_problem_simps unit_oracle_single np_defs world_defs fresh_run_world_simps
      initial_world_simps example_environment_simps Let_def show_results_line_def other_line_def)

lemma summary_histories:
  assumes "run_summary env P tag w r it' sc es"
    and "returned_histories (Some (Inr r)) = Some (error_history, time_history)"
  shows "error_history = es \<and> length time_history = length es \<and>
         length es = it' + (if sc = Iterations then 0 else 1) \<and> (sc = Iterations \<or> sc = tag)"
proof -
  obtain elapsed eref tref w' where r: "r = ((elapsed, eref, tref), w')"
    by (cases r) auto
  from assms(1) have tr: "trace_ok P tag 0 it' sc es"
    and e: "eref = Some (next_addr w)" and s1: "store w' (next_addr w) = es"
    and s2: "store w' tref =
          map (\<lambda>item. item - clock env (now w))
            (map (clock env) [Suc (now w)..<Suc (now w) + length es])"
    unfolding r run_summary_def prod.case by blast+
  from assms(2) have h: "error_history = es" "time_history = store w' tref"
    unfolding r by (simp_all add: returned_histories_def e s1)
  have "length time_history = length es"
    unfolding h(2) s2 by (simp only: length_map length_upt add_diff_cancel_left')
  moreover from tr have "length es = it' + (if sc = Iterations then 0 else 1)" "sc = Iterations \<or> sc = tag"
    by (auto simp: trace_ok_def)
  ultimately show ?thesis using h(1) by simp
qed

lemma returned_histories_SomeD:
  "returned_histories r = Some (error_history, time_history) \<Longrightarrow> \<exists>t. r = Some (Inr t)"
  by (auto simp: returned_histories_def split: option.splits sum.splits)

section \<open>Termination of the runs\<close>














lemma digit_char_one: "digit_char (Suc 0) = CHR ''1''"
  unfolding digit_char_def by code_simp

lemma kink_open_loop_run:
  "returned_histories (frank_wolfe_open_loop example_environment kink_problem 1 initial_world)
     = Some ([1, 2], [1, 2]) \<and>
   printed_lines (frank_wolfe_open_loop example_environment kink_problem 1 initial_world)
     = [[], ''1'' @ [CHR 0x09] @ ''m.mmE+xx'', ''maximum iterations reached''] \<and>
   loop_end (Some (frank_wolfe_open_loop_loop example_environment kink_problem 1 0
       (x_0 kink_problem) (fresh_run_world initial_world))) = Some (2, Iterations)"
  by (simp add: returned_histories_def printed_lines_def loop_end_def
      frank_wolfe_open_loop_def optimization_algorithm_unfold
      frank_wolfe_open_loop_body_def frank_wolfe_open_loop_loop.simps step_defs
      kink_problem_simps unit_oracle_single np_defs world_defs fresh_run_world_simps
      initial_world_simps example_environment_simps Let_def show_results_line_def other_line_def
      str_nat.simps digit_char_one)

section \<open>One iteration of the short-step loop and its float64 divisor\<close>















section \<open>A backtracking run that returns, and where a run can fail to return\<close>

lemma quadratic_search:
  "backtracking_step_size (quadratic_problem\<lparr>x_0 := a, max_iterations := m\<rparr>) 2 [2] [1] [- 1]
     = Some (Inr (5 / 18, 18 / 5))"
  unfolding backtracking_step_size_def eta_def
  apply (subst backtracking_step_size_loop_unfold)
  apply (simp add: candidate_step_def accepted_def np_divide_def norm_ord2_single np_defs(1-5)
      quadratic_problem_simps tau_def)
  apply (subst backtracking_step_size_loop_unfold)
  apply (simp add: candidate_step_def accepted_def np_divide_def norm_ord2_single np_defs(1-5)
      quadratic_problem_simps tau_def)
  done

lemma quadratic_backtracking_run:
  "returned_histories
     (frank_wolfe_backtracking example_environment
        (quadratic_problem\<lparr>x_0 := [1], max_iterations := 0\<rparr>) initial_world)
     = Some ([4], [1]) \<and>
   loop_end (frank_wolfe_backtracking_loop example_environment
       (quadratic_problem\<lparr>x_0 := [1], max_iterations := 0\<rparr>) None 0
       (x_0 (quadratic_problem\<lparr>x_0 := [1], max_iterations := 0\<rparr>))
       (fresh_run_world initial_world)) = Some (1, Iterations)"
  by (simp add: returned_histories_def loop_end_def
      frank_wolfe_backtracking_def optimization_algorithm_unfold
      frank_wolfe_backtracking_body_def frank_wolfe_backtracking_loop.simps
      initial_cap_l_def np_divide_def norm_ord2_single quadratic_search
      quadratic_problem_simps unit_oracle_single np_defs(1-5) world_defs fresh_run_world_simps
      initial_world_simps example_environment_simps Let_def show_results_line_def other_line_def)













section \<open>The claims\<close>

text \<open>
  Claim C1, as stated: a run that ends by the tolerance check has as many time entries
  as completed update steps and one error entry more. On the one-dimensional quadratic
  problem the line-search variant stops by the tolerance check in its first iteration,
  after no update step; the returned error history and the returned time history both
  have one entry.
\<close>

theorem history_lengths_counterexample:
  "loop_end (Some (frank_wolfe_line_search_loop example_environment quadratic_problem 0
       (x_0 quadratic_problem) (fresh_run_world initial_world))) = Some (0, Gap) \<and>
   returned_histories (frank_wolfe_line_search example_environment quadratic_problem initial_world)
     = Some ([0], [1])"
  by (simp add: loop_end_def returned_histories_def
      frank_wolfe_line_search_def optimization_algorithm_unfold
      frank_wolfe_line_search_body_def frank_wolfe_line_search_loop.simps
      quadratic_problem_simps unit_oracle_single np_defs world_defs fresh_run_world_simps
      initial_world_simps example_environment_simps Let_def show_results_line_def other_line_def)

text \<open>
  Claim C1, amended. For every run of a Frank-Wolfe variant that returns its histories,
  the error history and the time history have the same length; with \<open>updates\<close> the
  number of completed update steps, that length is \<open>updates + 1\<close> when the run ended by
  the tolerance check (the \<^verbatim>\<open>break\<close> branch appends a timestamp too) and \<open>updates\<close> when
  it ended by exhausting \<^verbatim>\<open>max_iterations\<close>.
\<close>

theorem history_lengths:
  "(returned_histories (frank_wolfe_open_loop env P parameter w) = Some (error_history, time_history) \<longrightarrow>
      (\<exists>updates sc.
         loop_end (Some (frank_wolfe_open_loop_loop env P parameter 0 (x_0 P) (fresh_run_world w)))
           = Some (updates, sc) \<and>
         (sc = Gap \<or> sc = Iterations) \<and>
         length error_history = length time_history \<and>
         length time_history = updates + (if sc = Gap then 1 else 0))) \<and>
   (returned_histories (frank_wolfe_short_steps env P w) = Some (error_history, time_history) \<longrightarrow>
      (\<exists>updates sc.
         loop_end (Some (frank_wolfe_short_steps_loop env P 0 (x_0 P) (fresh_run_world w)))
           = Some (updates, sc) \<and>
         (sc = Gap \<or> sc = Iterations) \<and>
         length error_history = length time_history \<and>
         length time_history = updates + (if sc = Gap then 1 else 0))) \<and>
   (returned_histories (frank_wolfe_line_search env P w) = Some (error_history, time_history) \<longrightarrow>
      (\<exists>updates sc.
         loop_end (Some (frank_wolfe_line_search_loop env P 0 (x_0 P) (fresh_run_world w)))
           = Some (updates, sc) \<and>
         (sc = Gap \<or> sc = Iterations) \<and>
         length error_history = length time_history \<and>
         length time_history = updates + (if sc = Gap then 1 else 0))) \<and>
   (returned_histories (frank_wolfe_backtracking env P w) = Some (error_history, time_history) \<longrightarrow>
      (\<exists>updates sc.
         loop_end (frank_wolfe_backtracking_loop env P None 0 (x_0 P) (fresh_run_world w))
           = Some (updates, sc) \<and>
         (sc = Gap \<or> sc = Iterations) \<and>
         length error_history = length time_history \<and>
         length time_history = updates + (if sc = Gap then 1 else 0)))"
proof (intro conjI impI)
  assume h: "returned_histories (frank_wolfe_open_loop env P parameter w) = Some (error_history, time_history)"
  then obtain r where r: "frank_wolfe_open_loop env P parameter w = Some (Inr r)"
    by (auto dest: returned_histories_SomeD)
  from frank_wolfe_open_loop_summary [OF r] obtain it' sc es x' w2 where
    "frank_wolfe_open_loop_loop env P parameter 0 (x_0 P) (fresh_run_world w) = Inr (it', x', sc, w2)"
    "run_summary env P Gap w r it' sc es"
    by blast
  with summary_histories [OF this(2) h [unfolded r]]
  show "\<exists>updates sc.
         loop_end (Some (frank_wolfe_open_loop_loop env P parameter 0 (x_0 P) (fresh_run_world w)))
           = Some (updates, sc) \<and>
         (sc = Gap \<or> sc = Iterations) \<and>
         length error_history = length time_history \<and>
         length time_history = updates + (if sc = Gap then 1 else 0)"
    by (auto simp: loop_end_def)
next
  assume h: "returned_histories (frank_wolfe_short_steps env P w) = Some (error_history, time_history)"
  then obtain r where r: "frank_wolfe_short_steps env P w = Some (Inr r)"
    by (auto dest: returned_histories_SomeD)
  from frank_wolfe_short_steps_summary [OF r] obtain it' sc es x' w2 where
    "frank_wolfe_short_steps_loop env P 0 (x_0 P) (fresh_run_world w) = Inr (it', x', sc, w2)"
    "run_summary env P Gap w r it' sc es"
    by blast
  with summary_histories [OF this(2) h [unfolded r]]
  show "\<exists>updates sc.
         loop_end (Some (frank_wolfe_short_steps_loop env P 0 (x_0 P) (fresh_run_world w)))
           = Some (updates, sc) \<and>
         (sc = Gap \<or> sc = Iterations) \<and>
         length error_history = length time_history \<and>
         length time_history = updates + (if sc = Gap then 1 else 0)"
    by (auto simp: loop_end_def)
next
  assume h: "returned_histories (frank_wolfe_line_search env P w) = Some (error_history, time_history)"
  then obtain r where r: "frank_wolfe_line_search env P w = Some (Inr r)"
    by (auto dest: returned_histories_SomeD)
  from frank_wolfe_line_search_summary [OF r] obtain it' sc es x' w2 where
    "frank_wolfe_line_search_loop env P 0 (x_0 P) (fresh_run_world w) = Inr (it', x', sc, w2)"
    "run_summary env P Gap w r it' sc es"
    by blast
  with summary_histories [OF this(2) h [unfolded r]]
  show "\<exists>updates sc.
         loop_end (Some (frank_wolfe_line_search_loop env P 0 (x_0 P) (fresh_run_world w)))
           = Some (updates, sc) \<and>
         (sc = Gap \<or> sc = Iterations) \<and>
         length error_history = length time_history \<and>
         length time_history = updates + (if sc = Gap then 1 else 0)"
    by (auto simp: loop_end_def)
next
  assume h: "returned_histories (frank_wolfe_backtracking env P w) = Some (error_history, time_history)"
  then obtain r where r: "frank_wolfe_backtracking env P w = Some (Inr r)"
    by (auto dest: returned_histories_SomeD)
  from frank_wolfe_backtracking_summary [OF r] obtain it' sc es x' w2 where
    "frank_wolfe_backtracking_loop env P None 0 (x_0 P) (fresh_run_world w) = Some (Inr (it', x', sc, w2))"
    "run_summary env P Gap w r it' sc es"
    by blast
  with summary_histories [OF this(2) h [unfolded r]]
  show "\<exists>updates sc.
         loop_end (frank_wolfe_backtracking_loop env P None 0 (x_0 P) (fresh_run_world w))
           = Some (updates, sc) \<and>
         (sc = Gap \<or> sc = Iterations) \<and>
         length error_history = length time_history \<and>
         length time_history = updates + (if sc = Gap then 1 else 0)"
    by (auto simp: loop_end_def)
qed

theorem history_lengths_witness:
  "returned_histories (frank_wolfe_open_loop example_environment kink_problem 1 initial_world)
     = Some ([1, 2], [1, 2]) \<and>
   loop_end (Some (frank_wolfe_open_loop_loop example_environment kink_problem 1 0
       (x_0 kink_problem) (fresh_run_world initial_world))) = Some (2, Iterations) \<and>
   length [1 :: real, 2] = 2 + (if Iterations = Gap then 1 else 0) \<and>
   returned_histories
     (frank_wolfe_backtracking example_environment
        (quadratic_problem\<lparr>x_0 := [1], max_iterations := 0\<rparr>) initial_world)
     = Some ([4], [1]) \<and>
   loop_end (frank_wolfe_backtracking_loop example_environment
       (quadratic_problem\<lparr>x_0 := [1], max_iterations := 0\<rparr>) None 0
       (x_0 (quadratic_problem\<lparr>x_0 := [1], max_iterations := 0\<rparr>))
       (fresh_run_world initial_world)) = Some (1, Iterations) \<and>
   length [4 :: real] = 1 + (if Iterations = Gap then 1 else 0)"
proof -
  have h: "returned_histories (frank_wolfe_open_loop example_environment kink_problem 1 initial_world)
     = Some ([1, 2], [1, 2])"
    and e: "loop_end (Some (frank_wolfe_open_loop_loop example_environment kink_problem 1 0
       (x_0 kink_problem) (fresh_run_world initial_world))) = Some (2, Iterations)"
    using kink_open_loop_run by simp_all
  from h history_lengths [where env = example_environment and P = kink_problem and parameter = 1
      and w = initial_world and error_history = "[1, 2]" and time_history = "[1, 2]"]
  obtain updates sc where
    "loop_end (Some (frank_wolfe_open_loop_loop example_environment kink_problem 1 0
       (x_0 kink_problem) (fresh_run_world initial_world))) = Some (updates, sc)"
    "length [1 :: real, 2] = updates + (if sc = Gap then 1 else 0)"
    by blast
  with e have first: "length [1 :: real, 2] = 2 + (if Iterations = Gap then 1 else 0)"
    by simp
  let ?P = "quadratic_problem\<lparr>x_0 := [1], max_iterations := 0\<rparr>"
  have h': "returned_histories (frank_wolfe_backtracking example_environment ?P initial_world)
     = Some ([4], [1])"
    and e': "loop_end (frank_wolfe_backtracking_loop example_environment ?P None 0 (x_0 ?P)
       (fresh_run_world initial_world)) = Some (1, Iterations)"
    using quadratic_backtracking_run by simp_all
  from history_lengths [where env = example_environment and P = ?P and parameter = 1
      and w = initial_world and error_history = "[4]" and time_history = "[1]",
      THEN conjunct2, THEN conjunct2, THEN conjunct2, THEN mp, OF h']
  obtain updates' sc' where
    "loop_end (frank_wolfe_backtracking_loop example_environment ?P None 0 (x_0 ?P)
       (fresh_run_world initial_world)) = Some (updates', sc')"
    "length [1 :: real] = updates' + (if sc' = Gap then 1 else 0)"
    by blast
  with e' have "length [4 :: real] = 1 + (if Iterations = Gap then 1 else 0)"
    by simp
  with h e first h' e' show ?thesis by blast
qed

text \<open>
  Claim C2, as stated: the inner loop accepts \<open>(gamma, M)\<close> exactly when the inner
  product of the gradient at \<open>x + gamma * d\<close> with \<open>s - x\<close> is at least \<open>0\<close>. The code
  tests the inner product with \<open>x - s\<close>. On the one-dimensional quadratic problem, at
  the first iteration from \<open>x = [1]\<close> (where \<open>g = [2]\<close>, \<open>s = [-1]\<close>, \<open>d = [-2]\<close> and the
  initial estimate is \<open>2\<close>), the first candidate \<open>5/9\<close> for \<open>M = 9/5\<close> passes the test
  of the claim, yet the search returns \<open>(5/18, 18/5)\<close>, a pair that fails the test of
  the claim.
\<close>

theorem backtracking_acceptance_counterexample:
  "initial_cap_l (quadratic_problem\<lparr>x_0 := [1]\<rparr>) [2] [1] [- 2] = Finite 2 \<and>
   backtracking_step_size (quadratic_problem\<lparr>x_0 := [1]\<rparr>) 2 [2] [1] [- 1] = Some (Inr (5 / 18, 18 / 5)) \<and>
   candidate_step [2] [1] [- 1] (9 / 10 * 2) = Finite (5 / 9) \<and>
   0 \<le> np_dot (gradient (quadratic_problem\<lparr>x_0 := [1]\<rparr>) (np_add [1] (np_scale (5 / 9) (np_sub [- 1] [1]))))
          (np_sub [- 1] [1]) \<and>
   \<not> 0 \<le> np_dot (gradient (quadratic_problem\<lparr>x_0 := [1]\<rparr>) (np_add [1] (np_scale (5 / 18) (np_sub [- 1] [1]))))
            (np_sub [- 1] [1])"
  unfolding backtracking_step_size_def eta_def
  apply (subst backtracking_step_size_loop_unfold)
  apply (simp add: candidate_step_def accepted_def np_divide_def norm_ord2_single np_defs(1-5)
      quadratic_problem_simps tau_def initial_cap_l_def)
  apply (subst backtracking_step_size_loop_unfold)
  apply (simp add: candidate_step_def accepted_def np_divide_def norm_ord2_single np_defs(1-5)
      quadratic_problem_simps tau_def)
  done

text \<open>
  Claim C2, amended. With \<open>g\<close>, \<open>s\<close>, \<open>d = s - x\<close> and \<open>gap\<close> as the outer iteration computes
  them: the step-size search for the previous estimate \<open>cap_l_t\<close> returns \<open>(gamma, cap_m)\<close>
  exactly when \<open>cap_m = 0.9 * cap_l_t * 2 ^ k\<close> for some \<open>k\<close>, \<open>gamma\<close> is the candidate for
  \<open>cap_m\<close>, the inner product of the gradient at \<open>x + gamma * d\<close> with \<open>x - s\<close> is at
  least \<open>0\<close>, and every earlier estimate \<open>0.9 * cap_l_t * 2 ^ j\<close> gave a finite candidate
  that failed this test. Where the divisor is not zero the candidate is
  \<open>min 1 (gap / (cap_m * ||d||\<^sup>2))\<close>. And an outer iteration that reaches the search
  (with the finite-difference estimate at iteration \<open>0\<close>, with the stored estimate
  afterwards) continues from \<open>x + gamma * d\<close> with the returned \<open>cap_m\<close> as the stored
  estimate.
\<close>

theorem backtracking_step_size_search:
  assumes "g = gradient P x" and "s = linear_oracle P g" and "d = np_sub s x"
    and "gap = np_dot (np_neg g) d"
  shows "(backtracking_step_size P cap_l_t g x s = Some (Inr (gamma, cap_m)) \<longleftrightarrow>
            (\<exists>k. cap_m = 9 / 10 * cap_l_t * 2 ^ k \<and>
                 candidate_step g x s cap_m = Finite gamma \<and>
                 0 \<le> np_dot (gradient P (np_add x (np_scale gamma d))) (np_sub x s) \<and>
                 (\<forall>j<k. \<exists>gamma_j.
                    candidate_step g x s (9 / 10 * cap_l_t * 2 ^ j) = Finite gamma_j \<and>
                    \<not> 0 \<le> np_dot (gradient P (np_add x (np_scale gamma_j d))) (np_sub x s)))) \<and>
         (cap_m * (norm_ord2 d) ^ 2 \<noteq> 0 \<longrightarrow>
            candidate_step g x s cap_m = Finite (min 1 (gap / (cap_m * (norm_ord2 d) ^ 2)))) \<and>
         (int it \<le> max_iterations P \<and> \<not> gap < tolerance P \<and>
          ((it = 0 \<and> initial_cap_l P g x d = Finite cap_l_t) \<or> (it \<noteq> 0 \<and> cap_l = Some cap_l_t)) \<and>
          append_errors gap w = Inr w1 \<and>
          append_times env (show_results env (Some it) (Some gap) None w1) = Inr w3 \<and>
          backtracking_step_size P cap_l_t g x s = Some (Inr (gamma, cap_m)) \<longrightarrow>
            frank_wolfe_backtracking_loop env P cap_l it x w =
            frank_wolfe_backtracking_loop env P (Some cap_m) (it + 1)
              (np_add x (np_scale gamma d)) w3)"
proof (intro conjI impI)
  show "backtracking_step_size P cap_l_t g x s = Some (Inr (gamma, cap_m)) \<longleftrightarrow>
            (\<exists>k. cap_m = 9 / 10 * cap_l_t * 2 ^ k \<and>
                 candidate_step g x s cap_m = Finite gamma \<and>
                 0 \<le> np_dot (gradient P (np_add x (np_scale gamma d))) (np_sub x s) \<and>
                 (\<forall>j<k. \<exists>gamma_j.
                    candidate_step g x s (9 / 10 * cap_l_t * 2 ^ j) = Finite gamma_j \<and>
                    \<not> 0 \<le> np_dot (gradient P (np_add x (np_scale gamma_j d))) (np_sub x s)))"
    unfolding backtracking_step_size_iff search_result_def accepted_def assms(3) eta_def tau_def
    by simp
next
  assume "cap_m * (norm_ord2 d) ^ 2 \<noteq> 0"
  then show "candidate_step g x s cap_m = Finite (min 1 (gap / (cap_m * (norm_ord2 d) ^ 2)))"
    unfolding assms(3,4) by (rule candidate_step_gap)
next
  assume "int it \<le> max_iterations P \<and> \<not> gap < tolerance P \<and>
          ((it = 0 \<and> initial_cap_l P g x d = Finite cap_l_t) \<or> (it \<noteq> 0 \<and> cap_l = Some cap_l_t)) \<and>
          append_errors gap w = Inr w1 \<and>
          append_times env (show_results env (Some it) (Some gap) None w1) = Inr w3 \<and>
          backtracking_step_size P cap_l_t g x s = Some (Inr (gamma, cap_m))"
  then show "frank_wolfe_backtracking_loop env P cap_l it x w =
            frank_wolfe_backtracking_loop env P (Some cap_m) (it + 1)
              (np_add x (np_scale gamma d)) w3"
    by (intro frank_wolfe_backtracking_loop_step [OF assms]) blast+
qed

theorem backtracking_step_size_search_witness:
  "backtracking_step_size quadratic_problem 2 [2] [1] [- 1] = Some (Inr (5 / 18, 18 / 5))"
proof -
  have "\<exists>k. (18 / 5 :: real) = 9 / 10 * 2 * 2 ^ k \<and>
          candidate_step [2] [1] [- 1] (18 / 5) = Finite (5 / 18) \<and>
          0 \<le> np_dot (gradient quadratic_problem (np_add [1] (np_scale (5 / 18) [- 2]))) (np_sub [1] [- 1]) \<and>
          (\<forall>j<k. \<exists>gamma_j.
             candidate_step [2] [1] [- 1] (9 / 10 * 2 * 2 ^ j) = Finite gamma_j \<and>
             \<not> 0 \<le> np_dot (gradient quadratic_problem (np_add [1] (np_scale gamma_j [- 2]))) (np_sub [1] [- 1]))"
  proof (rule exI [of _ "Suc 0"], intro conjI allI impI)
    fix j :: nat
    assume "j < Suc 0"
    then have "j = 0" by simp
    then show "\<exists>gamma_j.
             candidate_step [2] [1] [- 1] (9 / 10 * 2 * 2 ^ j) = Finite gamma_j \<and>
             \<not> 0 \<le> np_dot (gradient quadratic_problem (np_add [1] (np_scale gamma_j [- 2]))) (np_sub [1] [- 1])"
      by (intro exI [of _ "5 / 9"])
         (simp add: candidate_step_def np_divide_def norm_ord2_single np_defs(1-5) quadratic_problem_simps)
  qed (simp_all add: candidate_step_def np_divide_def norm_ord2_single np_defs(1-5) quadratic_problem_simps)
  with backtracking_step_size_search [where P = quadratic_problem and x = "[1]" and g = "[2]"
      and s = "[- 1]" and d = "[- 2]" and gap = 4 and cap_l_t = 2 and gamma = "5 / 18"
      and cap_m = "18 / 5"]
  show ?thesis
    by (simp add: quadratic_problem_simps unit_oracle_single np_defs(1-5))
qed

text \<open>
  Claim C3. A supplied starting point should be taken as it is and checked for
  feasibility. For every contract and every supplied array with two entries or more,
  construction raises \<^verbatim>\<open>ValueError\<close> from the truth-value test of
  \<^verbatim>\<open>x_0 if x_0 else zeros(shape=x_size)\<close>, before the feasibility check is reached and
  whether or not the array is feasible.
\<close>

theorem init_array_truth_value:
  "init C tol mx (NdArray (v # v' # vs)) n w = Inl ValueError"
  by (simp add: init_def)

text \<open>
  Claim C4, as stated: construction fails when the gradient-Lipschitz estimate is not
  positive. It does not: with the estimate \<open>0\<close> the construction of the one-dimensional
  Lasso problem succeeds.
\<close>

theorem init_zero_lipschitz_counterexample:
  "get_gradient_lipschitz_constant (quadratic_contract\<lparr>get_gradient_lipschitz_constant := 0\<rparr>) = 0 \<and>
   \<not> isl (init (quadratic_contract\<lparr>get_gradient_lipschitz_constant := 0\<rparr>) (1 / 10) 5 PyNone 1 initial_world)"
  by (simp add: init_def quadratic_contract_def zeros_def Lasso_check_feasible_def norm_ord1_def)

text \<open>
  Claim C4, amended: construction makes no check of the gradient-Lipschitz estimate.
  Whether construction fails does not depend on the estimate, and a constructed
  instance stores the estimate as the contract computes it, whatever its sign.
\<close>

theorem init_ignores_lipschitz:
  "(isl (init (C\<lparr>get_gradient_lipschitz_constant := l\<rparr>) tol mx x0 n w) \<longleftrightarrow> isl (init C tol mx x0 n w)) \<and>
   (\<forall>P w'. init C tol mx x0 n w = Inr (P, w') \<longrightarrow>
      gradient_lipschitz_constant P = get_gradient_lipschitz_constant C)"
  by (auto simp: init_def Let_def split: sum.splits)

theorem init_ignores_lipschitz_witness:
  "\<not> isl (init (quadratic_contract\<lparr>get_gradient_lipschitz_constant := - 3\<rparr>) (1 / 10) 5 PyNone 1 initial_world) \<and>
   gradient_lipschitz_constant
     (fst (projr (init (quadratic_contract\<lparr>get_gradient_lipschitz_constant := - 3\<rparr>) (1 / 10) 5 PyNone 1 initial_world)))
     = - 3"
proof -
  let ?C = "quadratic_contract\<lparr>get_gradient_lipschitz_constant := - 3\<rparr>"
  let ?r = "init ?C (1 / 10) 5 PyNone 1 initial_world"
  have ok: "\<not> isl ?r"
    by (simp add: init_def quadratic_contract_def zeros_def Lasso_check_feasible_def norm_ord1_def)
  then have "?r = Inr (fst (projr ?r), snd (projr ?r))"
    by (cases ?r) simp_all
  with init_ignores_lipschitz [where C = ?C and tol = "1 / 10" and mx = 5 and ?x0.0 = PyNone
      and n = 1 and w = initial_world and l = 0]
  have "gradient_lipschitz_constant (fst (projr ?r)) = get_gradient_lipschitz_constant ?C"
    by blast
  with ok show ?thesis by simp
qed




text \<open>
  Claim C6. Whenever a wrapped algorithm returns \<open>(elapsed_time, errors_ref, times_ref)\<close>:
  the body \<open>func\<close> was started in the world \<open>fresh_run_world w\<close>, in which both history
  fields refer to new, distinct, empty lists (no list that existed before is touched),
  nothing has been printed, and one timestamp, \<open>clock env (now w)\<close>, has been taken as
  the start time; the body returned; the elapsed time is the timestamp taken after the
  body minus the start time; the returned error history is the list the instance's
  error field refers to; and the returned time history is a new list holding the
  entries of the instance's time history, each minus the start time.
\<close>

theorem optimization_algorithm_contract:
  assumes "optimization_algorithm env func w = Some (Inr ((elapsed_time, errors_ref, times_ref), w'))"
  shows "\<exists>w0 w1 ea ta tb.
           w0 = fresh_run_world w \<and>
           errors_field w0 = Some ea \<and> times_field w0 = Some ta \<and> ea \<noteq> ta \<and>
           next_addr w \<le> ea \<and> next_addr w \<le> ta \<and>
           store w0 ea = [] \<and> store w0 ta = [] \<and>
           (\<forall>a<next_addr w. store w0 a = store w a) \<and>
           stdout w0 = stdout w \<and> now w0 = Suc (now w) \<and>
           func w0 = Some (Inr w1) \<and>
           elapsed_time = clock env (now w1) - clock env (now w) \<and>
           errors_ref = errors_field w1 \<and>
           times_field w1 = Some tb \<and>
           times_ref = next_addr w1 \<and>
           store w' times_ref = map (\<lambda>item. item - clock env (now w)) (store w1 tb) \<and>
           (\<forall>a. a \<noteq> times_ref \<longrightarrow> store w' a = store w1 a) \<and>
           errors_field w' = errors_field w1 \<and> times_field w' = times_field w1 \<and>
           stdout w' = stdout w1"
  using assms
  by (auto simp: optimization_algorithm_unfold fresh_run_world_simps
      split: option.splits sum.splits)

theorem optimization_algorithm_contract_witness:
  "map_option (map_sum id fst)
     (optimization_algorithm example_environment
        (\<lambda>w. Some (frank_wolfe_line_search_body example_environment quadratic_problem w))
        initial_world) = Some (Inr (2, Some 0, 2)) \<and>
   returned_histories
     (optimization_algorithm example_environment
        (\<lambda>w. Some (frank_wolfe_line_search_body example_environment quadratic_problem w))
        initial_world) = Some ([0], [1])"
proof -
  let ?func = "\<lambda>w. Some (frank_wolfe_line_search_body example_environment quadratic_problem w)"
  from quadratic_line_search_run obtain w' where
    run: "optimization_algorithm example_environment ?func initial_world = Some (Inr ((2, Some 0, 2), w'))"
    and st: "store w' 0 = [0]" "store w' 2 = [1]"
    unfolding frank_wolfe_line_search_def by blast
  from optimization_algorithm_contract [OF run]
  obtain w1 tb where "?func (fresh_run_world initial_world) = Some (Inr w1)"
    "times_field w1 = Some tb"
    "store w' 2 = map (\<lambda>item. item - clock example_environment (now initial_world)) (store w1 tb)"
    by blast
  with run st show ?thesis
    by (simp add: returned_histories_def)
qed

text \<open>
  Claim C7. Every loop iteration reports \<^verbatim>\<open>__show_results(iteration=iteration, value=metric)\<close>
  and the line is meant to hold the iteration number, a tab and the metric, also for
  iteration \<open>0\<close>. The test \<^verbatim>\<open>if iteration and value\<close> is false for the integer \<open>0\<close>: the
  line printed for iteration \<open>0\<close> is the empty line, whatever the metric. In the run of
  the open-loop variant on the problem with objective \<open>|x + 3/4|\<close> the gaps of
  iterations \<open>0\<close> and \<open>1\<close> are \<open>1\<close> and \<open>2\<close>; the first printed line is empty, the second
  holds \<open>1\<close>, a tab and the formatted gap, the third names the stopping condition.
\<close>

theorem show_results_iteration_zero:
  "show_results_line env (Some 0) (Some v) None = [] \<and>
   show_results env (Some 0) (Some v) None w = w\<lparr>stdout := stdout w @ [[]]\<rparr> \<and>
   printed_lines (frank_wolfe_open_loop example_environment kink_problem 1 initial_world)
     = [[], ''1'' @ [CHR 0x09] @ format_2E example_environment 2, ''maximum iterations reached'']"
  using kink_open_loop_run
  by (simp add: show_results_def show_results_line_def other_line_def example_environment_simps)

text \<open>
  Claim C8. When an invocation of any of the five algorithms has returned its two lists,
  a later invocation of any of the five on the same instance leaves the contents of both
  lists as they were, as it leaves every list that existed when it started; afterwards
  the instance's history fields refer to other lists than the ones returned before.
\<close>

theorem later_run_keeps_returned_histories:
  assumes "implementation env P v w0 = Some (Inr ((elapsed, errors_ref, times_ref), w1))"
    and "implementation env P v' w1 = Some (Inr (r', w2))"
  shows "\<exists>ea. errors_ref = Some ea \<and> errors_field w1 = Some ea \<and>
              store w2 ea = store w1 ea \<and> store w2 times_ref = store w1 times_ref \<and>
              errors_field w2 \<noteq> Some ea \<and> times_field w2 \<noteq> times_field w1 \<and>
              (\<forall>a<next_addr w1. store w2 a = store w1 a)"
proof -
  from implementation_summary [OF assms(1)] obtain tag it' sc es
    where s1: "run_summary env P tag w0 ((elapsed, errors_ref, times_ref), w1) it' sc es"
    by blast
  from implementation_summary [OF assms(2)] obtain tag' it'' sc' es'
    where s2: "run_summary env P tag' w1 (r', w2) it'' sc' es'"
    by blast
  from s1 s2 show ?thesis
    by (cases r') (auto simp: run_summary_def)
qed

theorem later_run_keeps_returned_histories_witness:
  "(case implementation example_environment quadratic_problem Frank_wolfe_short_steps initial_world of
      Some (Inr ((elapsed, Some ea, ta), w1)) \<Rightarrow>
        (case implementation example_environment quadratic_problem Frank_wolfe_line_search w1 of
           Some (Inr (r, w2)) \<Rightarrow> store w2 ea = [0] \<and> store w2 ta = [1] \<and> errors_field w2 \<noteq> Some ea
         | _ \<Rightarrow> False)
    | _ \<Rightarrow> False)"
proof -
  from quadratic_short_steps_run obtain w' w'' where
    r1: "implementation example_environment quadratic_problem Frank_wolfe_short_steps initial_world =
           Some (Inr ((2, Some 0, 2), w'))"
    and st: "store w' 0 = [0]" "store w' 2 = [1]"
    and r2: "implementation example_environment quadratic_problem Frank_wolfe_line_search w' =
           Some (Inr ((2, Some 3, 5), w''))"
    by auto
  from later_run_keeps_returned_histories [OF r1 r2]
  have "store w'' 0 = store w' 0 \<and> store w'' 2 = store w' 2 \<and> errors_field w'' \<noteq> Some 0"
    by auto
  with r1 r2 st show ?thesis
    by simp
qed




text \<open>
  Claim C10. For \<open>alpha \<ge> 0\<close> and every input vector of a dimension of at least one,
  Lasso's linear oracle returns a vector of the same dimension with at most one nonzero
  entry, every entry of absolute value at most \<open>alpha\<close>; its 1-norm is at most
  \<open>alpha\<close> and it passes the feasibility check.
\<close>

theorem Lasso_linear_oracle_feasible:
  assumes "0 \<le> alpha" and "x \<noteq> []"
  shows "\<exists>s. Lasso_linear_oracle alpha x = Inr s \<and> length s = length x \<and>
           length (filter (\<lambda>v. v \<noteq> 0) s) \<le> 1 \<and>
           (\<forall>v\<in>set s. \<bar>v\<bar> \<le> alpha) \<and>
           norm_ord1 s \<le> alpha \<and> Lasso_check_feasible alpha s"
proof -
  from assms(2) obtain k where k: "np_argmax (map abs x) = Inr k" "k < length x"
    using np_argmax_in_range [of "map abs x"] by auto
  define c where "c = - alpha * sgn (x ! k)"
  have c: "\<bar>c\<bar> \<le> alpha"
    using assms(1) by (simp add: c_def abs_mult sgn_real_def)
  define s where "s = (zeros (length x))[k := c]"
  have s_eq: "s = replicate k 0 @ c # replicate (length x - Suc k) 0"
    unfolding s_def using k(2) by (rule zeros_update_conv)
  have run: "Lasso_linear_oracle alpha x = Inr s"
    by (simp add: Lasso_linear_oracle_def k s_def c_def)
  have len: "length s = length x"
    by (simp add: s_def zeros_def)
  have nz: "length (filter (\<lambda>v. v \<noteq> 0) s) \<le> 1"
    by (simp add: s_eq)
  have bound: "\<forall>v\<in>set s. \<bar>v\<bar> \<le> alpha"
    using c assms(1) by (auto simp: s_eq)
  have norm: "norm_ord1 s = \<bar>c\<bar>"
    by (simp add: s_eq norm_ord1_def sum_list_replicate)
  with c have "norm_ord1 s \<le> alpha" by simp
  with run len nz bound show ?thesis
    by (simp add: Lasso_check_feasible_def)
qed

theorem Lasso_linear_oracle_feasible_witness:
  "Lasso_linear_oracle (1 / 10) [1, - 3, 2] = Inr [0, 1 / 10, 0] \<and>
   Lasso_check_feasible (1 / 10) [0, 1 / 10, 0]"
proof -
  have run: "Lasso_linear_oracle (1 / 10) [1, - 3, 2] = Inr [0, 1 / 10, 0]"
    by (simp add: Lasso_linear_oracle_def np_argmax_def zeros_def)
  from Lasso_linear_oracle_feasible [of "1 / 10" "[1, - 3, 2]"]
  obtain s where "Lasso_linear_oracle (1 / 10) [1, - 3, 2] = Inr s" "Lasso_check_feasible (1 / 10) s"
    by auto
  with run show ?thesis by simp
qed

end
